theory Spec2Isabelle
  imports Main
begin

section \<open>Data model\<close>

text \<open>
  The WebSocket game handler (\<^verbatim>\<open>src/unnamed/part_000\<close>) is a set of event handlers and
  timer callbacks that run one at a time on a single thread. Each of them is embedded
  as a function from the engine state to the engine state. The shapes of rooms, players
  and game states are imported by the handler from \<^verbatim>\<open>@shared/types\<close>; the fields below
  are the ones the handler reads. Logging is left out, and so is the periodic sweep of
  dead rooms, which only calls the registry.
\<close>

datatype room_status = Waiting | Countdown | Active | Finished

datatype color = Red | Green | Blue | Yellow

record player =
  p_id :: string
  p_displayName :: string
  isHost :: bool
  connected :: bool
  socketId :: string

datatype player_status = Playing | Eliminated | Winner

record simon_player_state =
  ps_status :: player_status
  currentInputIndex :: int

text \<open>
  \<^verbatim>\<open>playerStates\<close> is a JavaScript object keyed by player id: an association list with
  one entry per key, read with \<^const>\<open>map_of\<close>.
\<close>

record simon_state =
  s_round :: int
  s_sequence :: "color list"
  playerStates :: "(string \<times> simon_player_state) list"

datatype race_phase = InRound | RaceFinished

record race_state =
  r_round :: int
  totalRounds :: int
  currentColor :: color
  scores :: "(string \<times> int) list"
  roundWinner :: "string option"
  phase :: race_phase

text \<open>The \<^verbatim>\<open>gameType\<close> discriminator of the game state is the constructor.\<close>

datatype game_state = Simon simon_state | ColorRace race_state

record room =
  r_code :: string
  status :: room_status
  players :: "player list"
  gameState :: "game_state option"

record answer =
  a_playerId :: string
  a_color :: color
  a_timestamp :: nat

text \<open>
  \<^verbatim>\<open>SocketWithSession\<close>: the three optional session fields, and the rooms the socket is
  subscribed to (\<^verbatim>\<open>socket.join\<close>, \<^verbatim>\<open>socket.leave\<close>).
\<close>

record socket =
  sock_id :: string
  playerId :: "string option"
  gameCode :: "string option"
  displayName :: "string option"
  joined :: "string list"

subsection \<open>Outgoing messages\<close>

text \<open>
  \<^verbatim>\<open>socket.emit\<close> reaches the triggering connection, \<^verbatim>\<open>io.to(code).emit\<close> every
  subscriber of the room, \<^verbatim>\<open>socket.to(code).emit\<close> every subscriber but the triggering
  connection. The payload of the two room snapshots is the registry's room object; the
  properties below do not read it, so the message carries the room code only.
\<close>

datatype target = ToSocket string | ToRoom string | ToRoomExcept string string

datatype event =
    Error string
  | RoomState string
  | RoomStateUpdate string
  | PlayerJoined string
  | PlayerLeft string
  | PlayerReconnected string string
  | PlayerDisconnected string "string option"
  | RoomClosed
  | CountdownTick int
  | ColorRaceNewRound int color int
  | ColorRaceRoundResult "string option" "string option" "(string \<times> int) list"
  | ColorRaceGameFinished string string "(string \<times> int) list"
  | SimonShowSequence int "color list"
  | SimonSequenceComplete
  | SimonInputPhase int
  | SimonResult string string bool "color list"
  | SimonPlayerEliminated string string string
  | SimonInputCorrect string int
  | SimonGameFinished string string int

text \<open>An emission is the virtual time of the call, the delivery mode and the message.\<close>

type_synonym emission = "nat \<times> target \<times> event"

subsection \<open>Timers\<close>

text \<open>
  A closure passed to \<^verbatim>\<open>setTimeout\<close> or \<^verbatim>\<open>setInterval\<close> is a constructor holding the
  values the closure captured when it was scheduled.
\<close>

datatype callback =
    BufferTimeout string string "string option"
  | RemovalTimeout string string "string option"
  | CountdownInterval string int
  | StartSimonSequence string simon_state
  | SequenceComplete string simon_state
  | InputPhase string simon_state
  | AdvanceSimon string
  | EliminateAndFinish string simon_state string room
  | RaceNextRound string race_state

record timer =
  due :: nat
  cb :: callback

subsection \<open>Engine state\<close>

text \<open>
  \<^verbatim>\<open>registry\<close> is the room store behind \<^verbatim>\<open>gameService\<close>; \<^verbatim>\<open>disconnectTimeouts\<close> and
  \<^verbatim>\<open>roundAnswers\<close> are the two module-level maps of the handler; \<^verbatim>\<open>timers\<close> holds the
  pending (live) timers of the event loop under their handles; \<^verbatim>\<open>now\<close> is the clock in
  milliseconds; \<^verbatim>\<open>outbox\<close> is the log of everything emitted, oldest first.
\<close>

record engine =
  registry :: "string \<rightharpoonup> room"
  disconnectTimeouts :: "string \<rightharpoonup> nat"
  roundAnswers :: "string \<rightharpoonup> answer list"
  timers :: "nat \<rightharpoonup> timer"
  next_timer :: nat
  now :: nat
  outbox :: "emission list"

subsection \<open>External collaborators\<close>

text \<open>
  The game-logic functions of \<^verbatim>\<open>colorRaceLogic\<close> and \<^verbatim>\<open>simonLogic\<close> and the constants of
  \<^verbatim>\<open>@shared/types\<close> are not part of the handler: they are parameters of every handler
  below. \<^verbatim>\<open>determineWinner\<close> yields the winner's id, or nothing.
\<close>

record ext =
  initializeColorRaceGame :: "player list \<Rightarrow> race_state"
  processRound :: "race_state \<Rightarrow> answer list \<Rightarrow> race_state"
  determineWinner :: "race_state \<Rightarrow> string option"
  initializeSimonGame :: "player list \<Rightarrow> simon_state"
  validateInput :: "simon_state \<Rightarrow> string \<Rightarrow> color \<Rightarrow> int \<Rightarrow> bool"
  validateSequence :: "simon_state \<Rightarrow> color list \<Rightarrow> bool"
  eliminatePlayer :: "simon_state \<Rightarrow> string \<Rightarrow> int \<Rightarrow> simon_state"
  advanceToNextRound :: "simon_state \<Rightarrow> simon_state"
  shouldGameEnd :: "simon_state \<Rightarrow> bool"
  getWinner :: "simon_state \<Rightarrow> string option"
  updatePlayerProgress :: "simon_state \<Rightarrow> string \<Rightarrow> simon_state"
  DISCONNECT_BUFFER_MS :: nat
  DISCONNECT_GRACE_MS :: nat
  ROUND_RESULT_DELAY_MS :: nat
  SHOW_COLOR_DURATION_MS :: nat
  SHOW_COLOR_GAP_MS :: nat

section \<open>The room registry\<close>

text \<open>
  The handler imports \<^verbatim>\<open>gameService\<close>, whose code is not part of it. Its operations are
  modelled from the spec (sections 3, 4.1, 4.2 and 6) as operations on a map from room
  codes to rooms. An operation on a room that does not exist changes nothing.
\<close>

text \<open>
  Modelled from the spec: \<^verbatim>\<open>gameService.getRoom\<close>, "get room by code"; nothing when
  the room is absent.
\<close>

definition getRoom :: "engine \<Rightarrow> string \<Rightarrow> room option" where
  "getRoom st code = registry st code"

text \<open>\<^verbatim>\<open>room.players.find(p => p.id === playerId)\<close> of the handler.\<close>

definition find_player :: "string \<Rightarrow> player list \<Rightarrow> player option" where
  "find_player pid ps = find (\<lambda>p. p_id p = pid) ps"

text \<open>Changing one room of the registry, and one player of a room.\<close>

definition map_room :: "string \<Rightarrow> (room \<Rightarrow> room) \<Rightarrow> engine \<Rightarrow> engine" where
  "map_room code f st =
     (case registry st code of
        None \<Rightarrow> st
      | Some r \<Rightarrow> st\<lparr>registry := (registry st)(code \<mapsto> f r)\<rparr>)"

definition map_player :: "string \<Rightarrow> (player \<Rightarrow> player) \<Rightarrow> room \<Rightarrow> room" where
  "map_player pid f r = r\<lparr>players := map (\<lambda>p. if p_id p = pid then f p else p) (players r)\<rparr>"

text \<open>
  Modelled from the spec: \<^verbatim>\<open>gameService.updateSocketId\<close>, "update the room's connection
  reference for that player, mark connected".
\<close>

definition updateSocketId :: "string \<Rightarrow> string \<Rightarrow> string \<Rightarrow> engine \<Rightarrow> engine" where
  "updateSocketId code pid sid st =
     map_room code (map_player pid (\<lambda>p. p\<lparr>socketId := sid, connected := True\<rparr>)) st"

text \<open>
  Modelled from the spec: \<^verbatim>\<open>gameService.markPlayerDisconnected\<close>, "mark the player
  disconnected in the registry".
\<close>

definition markPlayerDisconnected :: "string \<Rightarrow> string \<Rightarrow> engine \<Rightarrow> engine" where
  "markPlayerDisconnected code pid st =
     map_room code (map_player pid (\<lambda>p. p\<lparr>connected := False\<rparr>)) st"

text \<open>
  Modelled from the spec: taking a player out of a room; the room is gone from the
  registry once it is empty ("if the room becomes empty/absent as a result").
\<close>

definition drop_player :: "string \<Rightarrow> string \<Rightarrow> room \<Rightarrow> engine \<Rightarrow> engine" where
  "drop_player code pid r st =
     (let ps = filter (\<lambda>p. p_id p \<noteq> pid) (players r)
      in if ps = [] then st\<lparr>registry := (registry st)(code := None)\<rparr>
         else st\<lparr>registry := (registry st)(code \<mapsto> r\<lparr>players := ps\<rparr>)\<rparr>)"

text \<open>
  Modelled from the spec: \<^verbatim>\<open>gameService.removePlayer\<close>, "remove player"; the result
  says whether a player was removed.
\<close>

definition removePlayer :: "string \<Rightarrow> string \<Rightarrow> engine \<Rightarrow> bool \<times> engine" where
  "removePlayer code pid st =
     (case registry st code of
        None \<Rightarrow> (False, st)
      | Some r \<Rightarrow>
          (case find_player pid (players r) of
             None \<Rightarrow> (False, st)
           | Some p \<Rightarrow> (True, drop_player code pid r st)))"

text \<open>
  Modelled from the spec: \<^verbatim>\<open>gameService.removeIfStillDisconnected\<close>, "if still not
  rebound, remove the player from the registry": a player marked connected stays.
\<close>

definition removeIfStillDisconnected :: "string \<Rightarrow> string \<Rightarrow> engine \<Rightarrow> bool \<times> engine" where
  "removeIfStillDisconnected code pid st =
     (case registry st code of
        None \<Rightarrow> (False, st)
      | Some r \<Rightarrow>
          (case find_player pid (players r) of
             None \<Rightarrow> (False, st)
           | Some p \<Rightarrow> if connected p then (False, st) else (True, drop_player code pid r st)))"

text \<open>Modelled from the spec: \<^verbatim>\<open>gameService.updateRoomStatus\<close>, "update room status".\<close>

definition updateRoomStatus :: "string \<Rightarrow> room_status \<Rightarrow> engine \<Rightarrow> engine" where
  "updateRoomStatus code s st = map_room code (\<lambda>r. r\<lparr>status := s\<rparr>) st"

text \<open>Modelled from the spec: \<^verbatim>\<open>gameService.updateGameState\<close>, "update game state".\<close>

definition updateGameState :: "string \<Rightarrow> game_state \<Rightarrow> engine \<Rightarrow> engine" where
  "updateGameState code g st = map_room code (\<lambda>r. r\<lparr>gameState := Some g\<rparr>) st"

section \<open>Event-loop primitives\<close>

definition emit :: "target \<Rightarrow> event \<Rightarrow> engine \<Rightarrow> engine" where
  "emit tg ev st = st\<lparr>outbox := outbox st @ [(now st, tg, ev)]\<rparr>"

text \<open>
  Node's timers: a delay below 1 or above 2147483647 ms is set to 1 ms. The handle returned
  is a fresh one; \<^verbatim>\<open>clearTimeout\<close> and \<^verbatim>\<open>clearInterval\<close> drop the pending timer.
\<close>

definition timer_delay :: "nat \<Rightarrow> nat" where
  "timer_delay d = (if d < 1 \<or> 2147483647 < d then 1 else d)"

definition setTimeout :: "callback \<Rightarrow> nat \<Rightarrow> engine \<Rightarrow> nat \<times> engine" where
  "setTimeout c d st =
     (next_timer st,
      st\<lparr>timers := (timers st)(next_timer st \<mapsto> \<lparr>due = now st + timer_delay d, cb = c\<rparr>),
         next_timer := Suc (next_timer st)\<rparr>)"

definition clearTimeout :: "nat \<Rightarrow> engine \<Rightarrow> engine" where
  "clearTimeout tid st = st\<lparr>timers := (timers st)(tid := None)\<rparr>"

text \<open>Time passing with no timer coming due.\<close>

definition elapse :: "nat \<Rightarrow> engine \<Rightarrow> engine" where
  "elapse ms st = st\<lparr>now := now st + ms\<rparr>"

text \<open>JavaScript truthiness of an optional string: \<^verbatim>\<open>undefined\<close> and \<^verbatim>\<open>''\<close> are falsy.\<close>

definition truthy :: "string option \<Rightarrow> bool" where
  "truthy s = (case s of None \<Rightarrow> False | Some v \<Rightarrow> v \<noteq> [])"

text \<open>The key of the timeout table, \<^verbatim>\<open>`${gameCode}:${playerId}`\<close>.\<close>

definition timeoutKey :: "string \<Rightarrow> string \<Rightarrow> string" where
  "timeoutKey code pid = code @ '':'' @ pid"

section \<open>Session binding\<close>

text \<open>
  \<^verbatim>\<open>handleAutoReconnect\<close>. Parsing the cookie and verifying the token belong to the
  \<^verbatim>\<open>cookie\<close> and \<^verbatim>\<open>auth\<close> modules: the argument is their outcome, the payload
  (playerId, gameCode, displayName) of a verified token, or nothing when the cookie header,
  the session cookie or a valid token is missing.
\<close>

definition handleAutoReconnect ::
  "(string \<times> string \<times> string) option \<Rightarrow> socket \<times> engine \<Rightarrow> socket \<times> engine" where
  "handleAutoReconnect payload = (\<lambda>(sock, st).
     case payload of
       None \<Rightarrow> (sock, st)
     | Some (pid, code, dname) \<Rightarrow>
         (case getRoom st code of
            None \<Rightarrow> (sock, st)
          | Some room \<Rightarrow>
              (case find_player pid (players room) of
                 None \<Rightarrow> (sock, st)
               | Some player \<Rightarrow>
                   let st1 = updateSocketId code pid (sock_id sock) st;
                       sock1 = sock\<lparr>playerId := Some pid, gameCode := Some code,
                                    displayName := Some dname,
                                    joined := List.insert code (joined sock)\<rparr>;
                       key = timeoutKey code pid;
                       st2 = (case disconnectTimeouts st1 key of
                                None \<Rightarrow> st1
                              | Some existingTimeout \<Rightarrow>
                                  (clearTimeout existingTimeout st1)
                                    \<lparr>disconnectTimeouts :=
                                       (disconnectTimeouts st1)(key := None)\<rparr>);
                       st3 = emit (ToRoomExcept code (sock_id sock))
                               (PlayerReconnected pid dname) st2;
                       st4 = emit (ToSocket (sock_id sock)) (RoomState code) st3
                   in (sock1, st4))))"

text \<open>The \<^verbatim>\<open>join_room_socket\<close> handler.\<close>

definition join_room_socket :: "string \<Rightarrow> string \<Rightarrow> socket \<times> engine \<Rightarrow> socket \<times> engine" where
  "join_room_socket code pid = (\<lambda>(sock, st).
     case getRoom st code of
       None \<Rightarrow> (sock, emit (ToSocket (sock_id sock)) (Error ''Room not found'') st)
     | Some room \<Rightarrow>
         (case find_player pid (players room) of
            None \<Rightarrow> (sock, emit (ToSocket (sock_id sock)) (Error ''Player not in room'') st)
          | Some player \<Rightarrow>
              let st1 = updateSocketId code pid (sock_id sock) st;
                  sock1 = sock\<lparr>playerId := Some pid, gameCode := Some code,
                               displayName := Some (p_displayName player),
                               joined := List.insert code (joined sock)\<rparr>;
                  st2 = emit (ToSocket (sock_id sock)) (RoomState code) st1;
                  st3 = emit (ToRoom code) (RoomStateUpdate code) st2;
                  st4 = emit (ToRoomExcept code (sock_id sock)) (PlayerJoined pid) st3
              in (sock1, st4)))"

text \<open>The \<^verbatim>\<open>leave_room\<close> handler.\<close>

definition leave_room :: "string \<Rightarrow> string \<Rightarrow> socket \<times> engine \<Rightarrow> socket \<times> engine" where
  "leave_room code pid = (\<lambda>(sock, st).
     let (removed, st1) = removePlayer code pid st;
         (sock1, st2) =
           (if removed then
              let s1 = sock\<lparr>joined := removeAll code (joined sock)\<rparr>;
                  e1 = emit (ToRoom code) (PlayerLeft pid) st1;
                  e2 = (case getRoom e1 code of
                          Some room \<Rightarrow> emit (ToRoom code) (RoomStateUpdate code) e1
                        | None \<Rightarrow> emit (ToRoom code) RoomClosed e1)
              in (s1, e2)
            else (sock, st1))
     in (sock1\<lparr>playerId := None, gameCode := None, displayName := None\<rparr>, st2))"

section \<open>Disconnect handling\<close>

text \<open>
  \<^verbatim>\<open>handleDisconnect\<close> and its two nested timer callbacks. The buffer callback and the
  removal callback capture \<^verbatim>\<open>playerId\<close>, \<^verbatim>\<open>gameCode\<close> and \<^verbatim>\<open>displayName\<close> of the
  socket as they were at the disconnect.
\<close>

definition handleDisconnect :: "ext \<Rightarrow> socket \<Rightarrow> engine \<Rightarrow> engine" where
  "handleDisconnect x sock st =
     (if \<not> truthy (playerId sock) \<or> \<not> truthy (gameCode sock) then st
      else
        let pid = the (playerId sock); code = the (gameCode sock);
            (bufferTimeout, st1) =
               setTimeout (BufferTimeout code pid (displayName sock)) (DISCONNECT_BUFFER_MS x) st
        in st1\<lparr>disconnectTimeouts := (disconnectTimeouts st1)(timeoutKey code pid \<mapsto> bufferTimeout)\<rparr>)"

definition buffer_callback :: "ext \<Rightarrow> string \<Rightarrow> string \<Rightarrow> string option \<Rightarrow> engine \<Rightarrow> engine" where
  "buffer_callback x code pid dname st =
     (let st1 = markPlayerDisconnected code pid st;
          st2 = emit (ToRoom code) (PlayerDisconnected pid dname) st1;
          (removalTimeout, st3) =
             setTimeout (RemovalTimeout code pid dname) (DISCONNECT_GRACE_MS x) st2
      in st3\<lparr>disconnectTimeouts := (disconnectTimeouts st3)(timeoutKey code pid \<mapsto> removalTimeout)\<rparr>)"

definition removal_callback :: "string \<Rightarrow> string \<Rightarrow> engine \<Rightarrow> engine" where
  "removal_callback code pid st =
     (let (removed, st1) = removeIfStillDisconnected code pid st;
          st2 = (if removed then
                   let e1 = emit (ToRoom code) (PlayerLeft pid) st1
                   in (case getRoom e1 code of
                         Some room \<Rightarrow> emit (ToRoom code) (RoomStateUpdate code) e1
                       | None \<Rightarrow> emit (ToRoom code) RoomClosed e1)
                 else st1)
      in st2\<lparr>disconnectTimeouts := (disconnectTimeouts st2)(timeoutKey code pid := None)\<rparr>)"

section \<open>Race game\<close>

datatype error = TypeError

text \<open>
  \<^verbatim>\<open>x?.displayName || fallback\<close>: the fallback is taken when the player is missing or
  the name is the empty string.
\<close>

definition name_or :: "player option \<Rightarrow> string \<Rightarrow> string" where
  "name_or p fallback =
     (case p of None \<Rightarrow> fallback
      | Some q \<Rightarrow> if p_displayName q = [] then fallback else p_displayName q)"

definition find_player_opt :: "string option \<Rightarrow> player list \<Rightarrow> player option" where
  "find_player_opt pid ps = (case pid of None \<Rightarrow> None | Some i \<Rightarrow> find_player i ps)"

text \<open>
  \<^verbatim>\<open>processColorRaceRound\<close>. The two non-null assertions \<^verbatim>\<open>winner!.winnerId\<close> and
  \<^verbatim>\<open>winnerPlayer!.displayName\<close> raise a TypeError when there is no winner or the winner
  is not among the players of the room object passed in; what was written and emitted
  before stays.
\<close>

definition processColorRaceRound ::
  "ext \<Rightarrow> string \<Rightarrow> room \<Rightarrow> race_state \<Rightarrow> answer list \<Rightarrow> engine \<Rightarrow> (error \<times> engine) + engine" where
  "processColorRaceRound x code room gs answers st =
     (let newState = processRound x gs answers;
          st1 = updateGameState code (ColorRace newState) st;
          roundWinnerP = find_player_opt (roundWinner newState) (players room);
          st2 = emit (ToRoom code)
                  (ColorRaceRoundResult (roundWinner newState)
                     (case roundWinnerP of
                        None \<Rightarrow> None
                      | Some q \<Rightarrow> if p_displayName q = [] then None else Some (p_displayName q))
                     (scores newState)) st1
      in if phase newState = RaceFinished then
           (case determineWinner x newState of
              None \<Rightarrow> Inl (TypeError, st2)
            | Some winnerId \<Rightarrow>
                (case find_player winnerId (players room) of
                   None \<Rightarrow> Inl (TypeError, st2)
                 | Some winnerPlayer \<Rightarrow>
                     Inr (updateRoomStatus code Finished
                            (emit (ToRoom code)
                               (ColorRaceGameFinished winnerId (p_displayName winnerPlayer)
                                  (scores newState)) st2))))
         else Inr (snd (setTimeout (RaceNextRound code newState) (ROUND_RESULT_DELAY_MS x) st2)))"

definition race_next_round_callback :: "string \<Rightarrow> race_state \<Rightarrow> engine \<Rightarrow> engine" where
  "race_next_round_callback code newState st =
     (case getRoom st code of
        None \<Rightarrow> st
      | Some currentRoom \<Rightarrow>
          if status currentRoom = Active then
            emit (ToRoom code)
              (ColorRaceNewRound (r_round newState) (currentColor newState) (totalRounds newState)) st
          else st)"

definition answers_of :: "engine \<Rightarrow> string \<Rightarrow> answer list" where
  "answers_of st code = (case roundAnswers st code of None \<Rightarrow> [] | Some a \<Rightarrow> a)"

text \<open>
  The \<^verbatim>\<open>color_race:submit_answer\<close> handler. The \<^verbatim>\<open>catch\<close> of the handler only logs, so
  an exception of \<^verbatim>\<open>processColorRaceRound\<close> ends the handler before the answer list is
  cleared.
\<close>

definition color_race_submit_answer ::
  "ext \<Rightarrow> string \<Rightarrow> string \<Rightarrow> color \<Rightarrow> engine \<Rightarrow> engine" where
  "color_race_submit_answer x code pid c st =
     (case getRoom st code of
        None \<Rightarrow> st
      | Some room \<Rightarrow>
          if status room \<noteq> Active then st
          else
            (case gameState room of
               Some (ColorRace gs) \<Rightarrow>
                 let answers = answers_of st code
                 in if list_ex (\<lambda>a. a_playerId a = pid) answers then st
                    else
                      let answers1 = answers @ [\<lparr>a_playerId = pid, a_color = c, a_timestamp = now st\<rparr>];
                          st1 = st\<lparr>roundAnswers := (roundAnswers st)(code \<mapsto> answers1)\<rparr>;
                          connectedPlayers = filter connected (players room)
                      in if length answers1 \<ge> length connectedPlayers then
                           (case processColorRaceRound x code room gs answers1 st1 of
                              Inl (e, st2) \<Rightarrow> st2
                            | Inr st2 \<Rightarrow> st2\<lparr>roundAnswers := (roundAnswers st2)(code \<mapsto> [])\<rparr>)
                         else st1
             | _ \<Rightarrow> st))"

section \<open>Sequence game\<close>

text \<open>\<^verbatim>\<open>showSimonSequence\<close> and its two nested timer callbacks.\<close>

definition showSimonSequence :: "ext \<Rightarrow> string \<Rightarrow> simon_state \<Rightarrow> engine \<Rightarrow> engine" where
  "showSimonSequence x code gs st =
     (let st1 = emit (ToRoom code) (SimonShowSequence (s_round gs) (s_sequence gs)) st;
          totalTime = length (s_sequence gs) * (SHOW_COLOR_DURATION_MS x + SHOW_COLOR_GAP_MS x)
      in snd (setTimeout (SequenceComplete code gs) (totalTime + 500) st1))"

definition sequence_complete_callback :: "string \<Rightarrow> simon_state \<Rightarrow> engine \<Rightarrow> engine" where
  "sequence_complete_callback code gs st =
     snd (setTimeout (InputPhase code gs) 500 (emit (ToRoom code) SimonSequenceComplete st))"

definition input_phase_callback :: "string \<Rightarrow> simon_state \<Rightarrow> engine \<Rightarrow> engine" where
  "input_phase_callback code gs st = emit (ToRoom code) (SimonInputPhase (s_round gs)) st"

text \<open>\<^verbatim>\<open>advanceSimonRound\<close>.\<close>

definition advanceSimonRound :: "ext \<Rightarrow> string \<Rightarrow> engine \<Rightarrow> engine" where
  "advanceSimonRound x code st =
     (case getRoom st code of
        None \<Rightarrow> st
      | Some room \<Rightarrow>
          if status room \<noteq> Active then st
          else
            (case gameState room of
               Some (Simon gs) \<Rightarrow>
                 let newState = advanceToNextRound x gs;
                     st1 = updateGameState code (Simon newState) st
                 in showSimonSequence x code newState st1
             | _ \<Rightarrow> st))"

text \<open>\<^verbatim>\<open>finishSimonGame\<close>; \<^verbatim>\<open>winnerId || ''\<close> is the empty string when there is no winner.\<close>

definition simon_game_finished :: "ext \<Rightarrow> simon_state \<Rightarrow> room \<Rightarrow> event" where
  "simon_game_finished x gs room =
     (let winnerId = getWinner x gs;
          winner = find_player_opt winnerId (players room)
      in SimonGameFinished (case winnerId of None \<Rightarrow> [] | Some w \<Rightarrow> w)
           (name_or winner ''No winner'') (s_round gs))"

definition finishSimonGame :: "ext \<Rightarrow> string \<Rightarrow> simon_state \<Rightarrow> room \<Rightarrow> engine \<Rightarrow> engine" where
  "finishSimonGame x code gs room st =
     updateRoomStatus code Finished (emit (ToRoom code) (simon_game_finished x gs room) st)"

text \<open>
  The callback scheduled by an incorrect whole-sequence submission. It works on the game
  state and the room object captured by the handler two seconds earlier.
\<close>

definition eliminate_and_finish_callback ::
  "ext \<Rightarrow> string \<Rightarrow> simon_state \<Rightarrow> string \<Rightarrow> room \<Rightarrow> engine \<Rightarrow> engine" where
  "eliminate_and_finish_callback x code gs pid room st =
     (let newState = eliminatePlayer x gs pid (s_round gs);
          st1 = updateGameState code (Simon newState) st
      in finishSimonGame x code newState room st1)"

text \<open>The \<^verbatim>\<open>simon:submit_sequence\<close> handler (whole-sequence mode).\<close>

definition simon_submit_sequence ::
  "ext \<Rightarrow> string \<Rightarrow> string \<Rightarrow> color list \<Rightarrow> engine \<Rightarrow> engine" where
  "simon_submit_sequence x code pid sq st =
     (case getRoom st code of
        None \<Rightarrow> st
      | Some room \<Rightarrow>
          if status room \<noteq> Active then st
          else
            (case gameState room of
               Some (Simon gs) \<Rightarrow>
                 (case map_of (playerStates gs) pid of
                    None \<Rightarrow> st
                  | Some playerState \<Rightarrow>
                      if ps_status playerState \<noteq> Playing then st
                      else
                        let player = find_player pid (players room);
                            isCorrect = validateSequence x gs sq;
                            st1 = emit (ToRoom code)
                                    (SimonResult pid (name_or player ''Unknown'') isCorrect
                                       (s_sequence gs)) st
                        in if isCorrect then snd (setTimeout (AdvanceSimon code) 2000 st1)
                           else snd (setTimeout (EliminateAndFinish code gs pid room) 2000 st1))
             | _ \<Rightarrow> st))"

text \<open>
  The \<^verbatim>\<open>simon:submit_input\<close> handler (per-step mode). Reading
  \<^verbatim>\<open>updatedPlayerState.currentInputIndex\<close> raises when the new state has no entry for
  the player; the \<^verbatim>\<open>catch\<close> only logs, so the handler ends there.
\<close>

definition simon_submit_input ::
  "ext \<Rightarrow> string \<Rightarrow> string \<Rightarrow> color \<Rightarrow> int \<Rightarrow> engine \<Rightarrow> engine" where
  "simon_submit_input x code pid c inputIndex st =
     (case getRoom st code of
        None \<Rightarrow> st
      | Some room \<Rightarrow>
          if status room \<noteq> Active then st
          else
            (case gameState room of
               Some (Simon gs) \<Rightarrow>
                 (case map_of (playerStates gs) pid of
                    None \<Rightarrow> st
                  | Some playerState \<Rightarrow>
                      if ps_status playerState \<noteq> Playing then st
                      else if \<not> validateInput x gs pid c inputIndex then
                        let newState = eliminatePlayer x gs pid (s_round gs);
                            st1 = updateGameState code (Simon newState) st;
                            player = find_player pid (players room);
                            st2 = emit (ToRoom code)
                                    (SimonPlayerEliminated pid (name_or player ''Unknown'')
                                       ''wrong_color'') st1
                        in if shouldGameEnd x newState
                           then finishSimonGame x code newState room st2
                           else st2
                      else
                        let newState = updatePlayerProgress x gs pid;
                            st1 = updateGameState code (Simon newState) st;
                            st2 = emit (ToRoom code) (SimonInputCorrect pid inputIndex) st1
                        in (case map_of (playerStates newState) pid of
                              None \<Rightarrow> st2
                            | Some updatedPlayerState \<Rightarrow>
                                if currentInputIndex updatedPlayerState
                                     \<ge> int (length (s_sequence newState)) then
                                  let allComplete =
                                        list_all (\<lambda>s. ps_status s \<noteq> Playing \<or>
                                                      currentInputIndex s
                                                        \<ge> int (length (s_sequence newState)))
                                          (map snd (playerStates newState))
                                  in if allComplete
                                     then snd (setTimeout (AdvanceSimon code) 2000 st2)
                                     else st2
                                else st2))
             | _ \<Rightarrow> st))"

section \<open>Countdown\<close>

text \<open>
  \<^verbatim>\<open>startCountdown\<close>. The interval closure shares the variable \<^verbatim>\<open>count\<close>: the pending
  interval timer carries its current value. \<^verbatim>\<open>gameType\<close> is the constant of the source.
\<close>

definition gameType :: string where
  "gameType = ''simon''"

definition startCountdown :: "string \<Rightarrow> engine \<Rightarrow> engine" where
  "startCountdown code st =
     snd (setTimeout (CountdownInterval code 3) 1000 (updateRoomStatus code Countdown st))"

text \<open>
  One run of the interval callback under the handle \<^verbatim>\<open>interval\<close>. At zero the interval is
  cleared; otherwise \<^verbatim>\<open>count--\<close> and the interval stays armed, one second later.
\<close>

definition countdown_callback :: "ext \<Rightarrow> nat \<Rightarrow> string \<Rightarrow> int \<Rightarrow> engine \<Rightarrow> engine" where
  "countdown_callback x interval code count st =
     (let st1 = emit (ToRoom code) (CountdownTick count) st
      in if count = 0 then
           let st2 = clearTimeout interval st1;
               st3 = updateRoomStatus code Active st2
           in (case getRoom st3 code of
                 None \<Rightarrow> st3
               | Some room \<Rightarrow>
                   if gameType = ''simon'' then
                     let gs = initializeSimonGame x (players room);
                         st4 = updateGameState code (Simon gs) st3
                     in snd (setTimeout (StartSimonSequence code gs) 500 st4)
                   else
                     let gs = initializeColorRaceGame x (players room);
                         st4 = updateGameState code (ColorRace gs) st3
                     in emit (ToRoom code)
                          (ColorRaceNewRound (r_round gs) (currentColor gs) (totalRounds gs)) st4)
         else st1\<lparr>timers := (timers st1)(interval \<mapsto>
                      \<lparr>due = now st1 + 1000, cb = CountdownInterval code (count - 1)\<rparr>)\<rparr>)"

text \<open>The \<^verbatim>\<open>start_game\<close> handler.\<close>

definition start_game :: "string \<Rightarrow> string \<Rightarrow> socket \<Rightarrow> engine \<Rightarrow> engine" where
  "start_game code pid sock st =
     (case getRoom st code of
        None \<Rightarrow> emit (ToSocket (sock_id sock)) (Error ''Room not found'') st
      | Some room \<Rightarrow>
          (case find_player pid (players room) of
             None \<Rightarrow> emit (ToSocket (sock_id sock)) (Error ''Only host can start the game'') st
           | Some player \<Rightarrow>
               if \<not> isHost player
               then emit (ToSocket (sock_id sock)) (Error ''Only host can start the game'') st
               else if status room \<noteq> Waiting
               then emit (ToSocket (sock_id sock)) (Error ''Game already started'') st
               else startCountdown code st))"

section \<open>Firing a timer\<close>

text \<open>
  The event loop runs the callback of a pending timer when it is due: the clock moves to
  the due time (it never moves back), a timeout leaves the pending set before its
  callback runs, an interval stays. A handle that is not pending fires nothing.
\<close>

definition run_callback :: "ext \<Rightarrow> callback \<Rightarrow> engine \<Rightarrow> engine" where
  "run_callback x c st =
     (case c of
        BufferTimeout code pid dname \<Rightarrow> buffer_callback x code pid dname st
      | RemovalTimeout code pid dname \<Rightarrow> removal_callback code pid st
      | CountdownInterval code count \<Rightarrow> st
      | StartSimonSequence code gs \<Rightarrow> showSimonSequence x code gs st
      | SequenceComplete code gs \<Rightarrow> sequence_complete_callback code gs st
      | InputPhase code gs \<Rightarrow> input_phase_callback code gs st
      | AdvanceSimon code \<Rightarrow> advanceSimonRound x code st
      | EliminateAndFinish code gs pid room \<Rightarrow> eliminate_and_finish_callback x code gs pid room st
      | RaceNextRound code newState \<Rightarrow> race_next_round_callback code newState st)"

definition fire :: "ext \<Rightarrow> nat \<Rightarrow> engine \<Rightarrow> engine" where
  "fire x tid st =
     (case timers st tid of
        None \<Rightarrow> st
      | Some t \<Rightarrow>
          let st1 = st\<lparr>now := max (now st) (due t)\<rparr>
          in (case cb t of
                CountdownInterval code count \<Rightarrow> countdown_callback x tid code count st1
              | c \<Rightarrow> run_callback x c (clearTimeout tid st1)))"

section \<open>A reference instance of the collaborators\<close>

text \<open>
  The game logic of \<^verbatim>\<open>simonLogic\<close> and \<^verbatim>\<open>colorRaceLogic\<close> and the timing constants
  are not part of the handler. The general lemmas about the handlers hold for every
  instance of \<^typ>\<open>ext\<close>; the instance below, modelled from the spec (sections 4.4, 4.5
  and 8), is used where a handler is run on a concrete input. The generated colours and
  the delays are fixed stand-ins.
\<close>

text \<open>
  Modelled from the spec: \<^verbatim>\<open>validateSequence\<close>, "the external sequence-equality
  function": the exact generated sequence is correct, any deviation is not.
\<close>

definition spec_validateSequence :: "simon_state \<Rightarrow> color list \<Rightarrow> bool" where
  "spec_validateSequence gs sq = (sq = s_sequence gs)"

text \<open>
  Modelled from the spec: \<^verbatim>\<open>validateInput\<close>, the "single-step validator keyed to the
  player's current progress pointer": the step must be the one the pointer is at, and its
  colour the colour of the sequence there.
\<close>

definition spec_validateInput :: "simon_state \<Rightarrow> string \<Rightarrow> color \<Rightarrow> int \<Rightarrow> bool" where
  "spec_validateInput gs pid c i =
     (case map_of (playerStates gs) pid of
        None \<Rightarrow> False
      | Some ps \<Rightarrow> i = currentInputIndex ps \<and> 0 \<le> i \<and> i < int (length (s_sequence gs)) \<and>
                  s_sequence gs ! nat i = c)"

text \<open>Changing the state of one player of the sequence game.\<close>

definition map_state :: "string \<Rightarrow> (simon_player_state \<Rightarrow> simon_player_state) \<Rightarrow> simon_state \<Rightarrow> simon_state" where
  "map_state pid f gs =
     gs\<lparr>playerStates := map (\<lambda>(k, v). if k = pid then (k, f v) else (k, v)) (playerStates gs)\<rparr>"

text \<open>
  Modelled from the spec: \<^verbatim>\<open>eliminatePlayer\<close>, "the external elimination function":
  the player's status becomes eliminated.
\<close>

definition spec_eliminatePlayer :: "simon_state \<Rightarrow> string \<Rightarrow> int \<Rightarrow> simon_state" where
  "spec_eliminatePlayer gs pid rnd = map_state pid (\<lambda>v. v\<lparr>ps_status := Eliminated\<rparr>) gs"

text \<open>
  Modelled from the spec: \<^verbatim>\<open>updatePlayerProgress\<close>, "advance the player's progress
  pointer".
\<close>

definition spec_updatePlayerProgress :: "simon_state \<Rightarrow> string \<Rightarrow> simon_state" where
  "spec_updatePlayerProgress gs pid =
     map_state pid (\<lambda>v. v\<lparr>currentInputIndex := currentInputIndex v + 1\<rparr>) gs"

text \<open>
  Modelled from the spec: \<^verbatim>\<open>advanceToNextRound\<close>, the next round "with a freshly
  generated, longer sequence"; the new colour is fixed here, the pointers start again.
\<close>

definition spec_advanceToNextRound :: "simon_state \<Rightarrow> simon_state" where
  "spec_advanceToNextRound gs =
     gs\<lparr>s_round := s_round gs + 1, s_sequence := s_sequence gs @ [Red],
        playerStates := map (\<lambda>(k, v). (k, v\<lparr>currentInputIndex := 0\<rparr>)) (playerStates gs)\<rparr>"

text \<open>The players that are still playing.\<close>

definition remaining :: "simon_state \<Rightarrow> string list" where
  "remaining gs = map fst (filter (\<lambda>(k, v). ps_status v = Playing) (playerStates gs))"

text \<open>
  Modelled from the spec: \<^verbatim>\<open>shouldGameEnd\<close>, "fewer than the minimum number of
  non-eliminated players remain", with a minimum of two.
\<close>

definition spec_shouldGameEnd :: "simon_state \<Rightarrow> bool" where
  "spec_shouldGameEnd gs = (length (remaining gs) < 2)"

text \<open>
  Modelled from the spec: \<^verbatim>\<open>getWinner\<close>, "determine the winner": the one player still
  playing, if there is exactly one.
\<close>

definition spec_getWinner :: "simon_state \<Rightarrow> string option" where
  "spec_getWinner gs = (case remaining gs of [k] \<Rightarrow> Some k | _ \<Rightarrow> None)"

text \<open>
  Modelled from the spec: \<^verbatim>\<open>initializeSimonGame\<close>, the initial state of the sequence
  variant: round 1, a sequence of one colour (fixed here), every player playing at
  pointer 0.
\<close>

definition spec_initializeSimonGame :: "player list \<Rightarrow> simon_state" where
  "spec_initializeSimonGame ps =
     \<lparr>s_round = 1, s_sequence = [Red],
      playerStates = map (\<lambda>p. (p_id p, \<lparr>ps_status = Playing, currentInputIndex = 0\<rparr>)) ps\<rparr>"

text \<open>
  Modelled from the spec: \<^verbatim>\<open>initializeColorRaceGame\<close>, the initial state of the race
  variant: round 1 of five, a target colour (fixed here), every score zero.
\<close>

definition spec_initializeColorRaceGame :: "player list \<Rightarrow> race_state" where
  "spec_initializeColorRaceGame ps =
     \<lparr>r_round = 1, totalRounds = 5, currentColor = Blue, scores = map (\<lambda>p. (p_id p, 0)) ps,
      roundWinner = None, phase = InRound\<rparr>"

text \<open>
  Modelled from the spec: \<^verbatim>\<open>processRound\<close>, "the external round-resolution function":
  the round goes to the first recorded answer with the target colour, its player scores a
  point, and the phase is finished after the last round.
\<close>

definition spec_processRound :: "race_state \<Rightarrow> answer list \<Rightarrow> race_state" where
  "spec_processRound gs answers =
     (let w = (case filter (\<lambda>a. a_color a = currentColor gs) answers of
                 [] \<Rightarrow> None
               | a # _ \<Rightarrow> Some (a_playerId a))
      in gs\<lparr>roundWinner := w,
            scores := map (\<lambda>(k, v). if Some k = w then (k, v + 1) else (k, v)) (scores gs),
            r_round := (if r_round gs < totalRounds gs then r_round gs + 1 else r_round gs),
            phase := (if r_round gs < totalRounds gs then InRound else RaceFinished)\<rparr>)"

text \<open>
  Modelled from the spec: \<^verbatim>\<open>determineWinner\<close>, "the external winner-determination
  function": the first player with the highest score; it sees the game state only.
\<close>

definition spec_determineWinner :: "race_state \<Rightarrow> string option" where
  "spec_determineWinner gs =
     (case scores gs of
        [] \<Rightarrow> None
      | s # ss \<Rightarrow> Some (fst (fold (\<lambda>a b. if snd b < snd a then a else b) ss s)))"

text \<open>
  Modelled from the spec: the collaborators together, with stand-ins for the constants
  \<^verbatim>\<open>PLATFORM_CONSTANTS\<close>, \<^verbatim>\<open>COLOR_RACE_CONSTANTS\<close> and \<^verbatim>\<open>SIMON_CONSTANTS\<close> of
  \<^verbatim>\<open>@shared/types\<close>.
\<close>

definition spec_ext :: ext where
  "spec_ext =
     \<lparr>initializeColorRaceGame = spec_initializeColorRaceGame,
      processRound = spec_processRound,
      determineWinner = spec_determineWinner,
      initializeSimonGame = spec_initializeSimonGame,
      validateInput = spec_validateInput,
      validateSequence = spec_validateSequence,
      eliminatePlayer = spec_eliminatePlayer,
      advanceToNextRound = spec_advanceToNextRound,
      shouldGameEnd = spec_shouldGameEnd,
      getWinner = spec_getWinner,
      updatePlayerProgress = spec_updatePlayerProgress,
      DISCONNECT_BUFFER_MS = 5000,
      DISCONNECT_GRACE_MS = 30000,
      ROUND_RESULT_DELAY_MS = 2000,
      SHOW_COLOR_DURATION_MS = 600,
      SHOW_COLOR_GAP_MS = 200\<rparr>"

text \<open>A lobby of three players, Alice being the host, and sockets before and after binding.\<close>

definition alice :: player where
  "alice = \<lparr>p_id = ''alice'', p_displayName = ''Alice'', isHost = True, connected = True, socketId = ''s1''\<rparr>"

definition bob :: player where
  "bob = \<lparr>p_id = ''bob'', p_displayName = ''Bob'', isHost = False, connected = True, socketId = ''s2''\<rparr>"

definition carol :: player where
  "carol = \<lparr>p_id = ''carol'', p_displayName = ''Carol'', isHost = False, connected = True, socketId = ''s3''\<rparr>"

definition lobby :: room where
  "lobby = \<lparr>r_code = ''ABCD'', status = Waiting, players = [alice, bob, carol], gameState = None\<rparr>"

definition idle :: engine where
  "idle = \<lparr>registry = [''ABCD'' \<mapsto> lobby], disconnectTimeouts = Map.empty,
            roundAnswers = Map.empty, timers = Map.empty, next_timer = 0, now = 0, outbox = []\<rparr>"

definition fresh_socket :: "string \<Rightarrow> socket" where
  "fresh_socket sid =
     \<lparr>sock_id = sid, playerId = None, gameCode = None, displayName = None, joined = []\<rparr>"

definition bound_socket :: "string \<Rightarrow> string \<Rightarrow> string \<Rightarrow> socket" where
  "bound_socket sid code pid =
     \<lparr>sock_id = sid, playerId = Some pid, gameCode = Some code, displayName = Some pid,
      joined = [code]\<rparr>"

section \<open>The guards of the handlers as predicates\<close>

text \<open>The three checks of \<^verbatim>\<open>start_game\<close>: the room exists, the requester is its host, it is waiting.\<close>

definition may_start :: "engine \<Rightarrow> string \<Rightarrow> string \<Rightarrow> bool" where
  "may_start st code pid =
     (case getRoom st code of
        None \<Rightarrow> False
      | Some room \<Rightarrow>
          (case find_player pid (players room) of None \<Rightarrow> False | Some p \<Rightarrow> isHost p) \<and>
          status room = Waiting)"


text \<open>
  The three checks shared by \<^verbatim>\<open>simon:submit_sequence\<close> and \<^verbatim>\<open>simon:submit_input\<close>: the
  room exists and is active, its game is the sequence game, the player is still playing.
\<close>

definition accepting :: "engine \<Rightarrow> string \<Rightarrow> string \<Rightarrow> bool" where
  "accepting st code pid =
     (case getRoom st code of
        None \<Rightarrow> False
      | Some room \<Rightarrow>
          status room = Active \<and>
          (case gameState room of
             Some (Simon gs) \<Rightarrow>
               (case map_of (playerStates gs) pid of
                  None \<Rightarrow> False
                | Some ps \<Rightarrow> ps_status ps = Playing)
           | _ \<Rightarrow> False))"

text \<open>Whether "input phase open" has been broadcast to the room for a round.\<close>

fun is_input_phase :: "string \<Rightarrow> int \<Rightarrow> emission \<Rightarrow> bool" where
  "is_input_phase code r (t, ToRoom c, SimonInputPhase r') = (c = code \<and> r' = r)"
| "is_input_phase code r _ = False"

definition input_phase_open :: "engine \<Rightarrow> string \<Rightarrow> int \<Rightarrow> bool" where
  "input_phase_open st code r = list_ex (is_input_phase code r) (outbox st)"

text \<open>The handles of the pending grace timers (buffer or removal) of a room and player.\<close>

fun is_grace :: "string \<Rightarrow> string \<Rightarrow> callback \<Rightarrow> bool" where
  "is_grace code pid (BufferTimeout c p d) = (c = code \<and> p = pid)"
| "is_grace code pid (RemovalTimeout c p d) = (c = code \<and> p = pid)"
| "is_grace code pid _ = False"

definition live_grace :: "engine \<Rightarrow> string \<Rightarrow> string \<Rightarrow> nat list" where
  "live_grace st code pid =
     filter (\<lambda>i. case timers st i of None \<Rightarrow> False | Some t \<Rightarrow> is_grace code pid (cb t))
       [0..<next_timer st]"

section \<open>Runs of the engine\<close>

text \<open>
  A sequence game from the lobby to the open input phase of round 1: the host starts the
  game, the interval runs four times, then the three pacing timers fire.
\<close>

definition round1 :: simon_state where
  "round1 = spec_initializeSimonGame [alice, bob, carol]"

definition playing :: room where
  "playing = lobby\<lparr>status := Active, gameState := Some (Simon round1)\<rparr>"

definition ticks :: "emission list" where
  "ticks = [(1000, ToRoom ''ABCD'', CountdownTick 3), (2000, ToRoom ''ABCD'', CountdownTick 2),
            (3000, ToRoom ''ABCD'', CountdownTick 1), (4000, ToRoom ''ABCD'', CountdownTick 0)]"

definition prelude :: "emission list" where
  "prelude = ticks @ [(4500, ToRoom ''ABCD'', SimonShowSequence 1 [Red]),
                      (5800, ToRoom ''ABCD'', SimonSequenceComplete),
                      (6300, ToRoom ''ABCD'', SimonInputPhase 1)]"

definition requested :: engine where "requested = start_game ''ABCD'' ''alice'' (fresh_socket ''s1'') idle"
definition ticked3 :: engine where "ticked3 = fire spec_ext 0 requested"
definition ticked2 :: engine where "ticked2 = fire spec_ext 0 ticked3"
definition ticked1 :: engine where "ticked1 = fire spec_ext 0 ticked2"
definition started :: engine where "started = fire spec_ext 0 ticked1"
definition showing :: engine where "showing = fire spec_ext 1 started"
definition shown :: engine where "shown = fire spec_ext 2 showing"
definition input_open :: engine where "input_open = fire spec_ext 3 shown"

text \<open>
  Alice submits a wrong whole sequence at 7000 ms and another at 7500 ms; the two
  callbacks fire at 9000 ms and 9500 ms.
\<close>

definition wrong1 :: engine where
  "wrong1 = simon_submit_sequence spec_ext ''ABCD'' ''alice'' [Blue] (elapse 700 input_open)"
definition wrong2 :: engine where
  "wrong2 = simon_submit_sequence spec_ext ''ABCD'' ''alice'' [Green] (elapse 500 wrong1)"
definition over1 :: engine where "over1 = fire spec_ext 4 wrong2"
definition over2 :: engine where "over2 = fire spec_ext 5 over1"

text \<open>Alice submits one wrong whole sequence; its callback fires at 9000 ms.\<close>

definition lone_finish :: engine where "lone_finish = fire spec_ext 4 wrong1"

text \<open>
  Per-step mode: Alice enters the one colour of round 1 at 7000 ms and so completes the
  round, then sends one more step at 7300 ms.
\<close>

definition done1 :: engine where
  "done1 = simon_submit_input spec_ext ''ABCD'' ''alice'' Red 0 (elapse 700 input_open)"
definition again :: engine where
  "again = simon_submit_input spec_ext ''ABCD'' ''alice'' Blue 1 (elapse 300 done1)"

text \<open>
  Alice's socket joins and drops at 0 ms; she joins again with an explicit request on a
  new socket at 1000 ms; the buffer timer fires at 5000 ms and the removal timer at
  35000 ms.
\<close>

definition tab_joined :: "socket \<times> engine" where
  "tab_joined = join_room_socket ''ABCD'' ''alice'' (fresh_socket ''s1'', idle)"
definition dropped :: engine where
  "dropped = handleDisconnect spec_ext (fst tab_joined) (snd tab_joined)"
definition rejoined :: "socket \<times> engine" where
  "rejoined = join_room_socket ''ABCD'' ''alice'' (fresh_socket ''s8'', elapse 1000 dropped)"
definition demoted :: engine where "demoted = fire spec_ext 0 (snd rejoined)"
definition evicted :: engine where "evicted = fire spec_ext 1 demoted"

text \<open>
  Alice has the room open on two sockets; the first drops at 0 ms, the second at 100 ms.
\<close>

definition second_tab :: "socket \<times> engine" where
  "second_tab = join_room_socket ''ABCD'' ''alice'' (fresh_socket ''s7'', snd tab_joined)"
definition drop1 :: engine where
  "drop1 = handleDisconnect spec_ext (fst tab_joined) (snd second_tab)"
definition drop2 :: engine where
  "drop2 = handleDisconnect spec_ext (fst second_tab) (elapse 100 drop1)"

text \<open>
  The last round of a race. Bob leads the scores but is no longer a player of the room
  (he was removed after his grace period); Alice is the only connected player. Alice
  answers at 0 ms; a second answer under Bob's id arrives at 1000 ms.
\<close>

definition last_round :: race_state where
  "last_round = \<lparr>r_round = 5, totalRounds = 5, currentColor = Blue,
                  scores = [(''alice'', 1), (''bob'', 4)], roundWinner = None, phase = InRound\<rparr>"

definition race_room :: room where
  "race_room = \<lparr>r_code = ''RACE'', status = Active, players = [alice],
                 gameState = Some (ColorRace last_round)\<rparr>"

definition racing :: engine where
  "racing = \<lparr>registry = [''RACE'' \<mapsto> race_room], disconnectTimeouts = Map.empty,
              roundAnswers = Map.empty, timers = Map.empty, next_timer = 0, now = 0, outbox = []\<rparr>"

definition answered :: engine where
  "answered = color_race_submit_answer spec_ext ''RACE'' ''alice'' Blue racing"
definition answered_twice :: engine where
  "answered_twice = color_race_submit_answer spec_ext ''RACE'' ''bob'' Red (elapse 1000 answered)"

text \<open>Values that occur in the runs above.\<close>

definition alice_socket :: "string \<Rightarrow> socket" where
  "alice_socket sid = \<lparr>sock_id = sid, playerId = Some ''alice'', gameCode = Some ''ABCD'',
                         displayName = Some ''Alice'', joined = [''ABCD'']\<rparr>"

definition alice_out :: simon_state where
  "alice_out = spec_eliminatePlayer round1 ''alice'' 1"

definition game_over :: room where
  "game_over = lobby\<lparr>status := Finished, gameState := Some (Simon alice_out)\<rparr>"

definition alice_done :: simon_state where
  "alice_done = spec_updatePlayerProgress round1 ''alice''"

definition first_answer :: answer where
  "first_answer = \<lparr>a_playerId = ''alice'', a_color = Blue, a_timestamp = 0\<rparr>"

definition second_answer :: answer where
  "second_answer = \<lparr>a_playerId = ''bob'', a_color = Red, a_timestamp = 1000\<rparr>"

definition after_last :: race_state where
  "after_last = spec_processRound last_round [first_answer]"

section \<open>Evaluation of the runs\<close>

text \<open>The state after each step of the runs, computed by unfolding the handlers.\<close>

lemmas prim_defs = getRoom_def find_player_def find_player_opt_def name_or_def updateRoomStatus_def
  updateGameState_def updateSocketId_def markPlayerDisconnected_def map_room_def map_player_def
  drop_player_def removePlayer_def removeIfStillDisconnected_def setTimeout_def clearTimeout_def
  timer_delay_def emit_def elapse_def truthy_def timeoutKey_def answers_of_def

lemmas spec_defs = spec_ext_def spec_validateSequence_def spec_validateInput_def map_state_def
  spec_eliminatePlayer_def spec_updatePlayerProgress_def spec_advanceToNextRound_def remaining_def
  spec_shouldGameEnd_def spec_getWinner_def spec_initializeSimonGame_def
  spec_initializeColorRaceGame_def spec_processRound_def spec_determineWinner_def

lemmas actor_defs = alice_def bob_def carol_def lobby_def idle_def fresh_socket_def round1_def playing_def ticks_def prelude_def

lemmas fire_defs = fire_def run_callback_def countdown_callback_def buffer_callback_def
  removal_callback_def showSimonSequence_def sequence_complete_callback_def input_phase_callback_def
  advanceSimonRound_def eliminate_and_finish_callback_def finishSimonGame_def
  simon_game_finished_def race_next_round_callback_def gameType_def

lemma requested_eq: "requested = idle\<lparr>registry := [''ABCD'' \<mapsto> lobby\<lparr>status := Countdown\<rparr>],
     timers := [0 \<mapsto> \<lparr>due = 1000, cb = CountdownInterval ''ABCD'' 3\<rparr>], next_timer := 1\<rparr>"
  unfolding requested_def by (simp add: start_game_def startCountdown_def prim_defs actor_defs)

lemma ticked3_eq: "ticked3 = requested\<lparr>timers := [0 \<mapsto> \<lparr>due = 2000, cb = CountdownInterval ''ABCD'' 2\<rparr>],
     now := 1000, outbox := [(1000, ToRoom ''ABCD'', CountdownTick 3)]\<rparr>"
  unfolding ticked3_def requested_eq by (simp add: fire_defs prim_defs actor_defs)

lemma ticked2_eq: "ticked2 = requested\<lparr>timers := [0 \<mapsto> \<lparr>due = 3000, cb = CountdownInterval ''ABCD'' 1\<rparr>],
     now := 2000, outbox := [(1000, ToRoom ''ABCD'', CountdownTick 3),
       (2000, ToRoom ''ABCD'', CountdownTick 2)]\<rparr>"
  unfolding ticked2_def ticked3_eq requested_eq by (simp add: fire_defs prim_defs actor_defs)

lemma ticked1_eq: "ticked1 = requested\<lparr>timers := [0 \<mapsto> \<lparr>due = 4000, cb = CountdownInterval ''ABCD'' 0\<rparr>],
     now := 3000, outbox := [(1000, ToRoom ''ABCD'', CountdownTick 3),
       (2000, ToRoom ''ABCD'', CountdownTick 2), (3000, ToRoom ''ABCD'', CountdownTick 1)]\<rparr>"
  unfolding ticked1_def ticked2_eq requested_eq by (simp add: fire_defs prim_defs actor_defs)

lemma started_eq: "started = idle\<lparr>registry := [''ABCD'' \<mapsto> playing],
     timers := [1 \<mapsto> \<lparr>due = 4500, cb = StartSimonSequence ''ABCD'' round1\<rparr>], next_timer := 2,
     now := 4000, outbox := ticks\<rparr>"
  unfolding started_def ticked1_eq requested_eq
  by (simp add: fire_defs prim_defs actor_defs spec_defs Let_def fun_eq_iff)

lemma showing_eq: "showing = started\<lparr>
     timers := [2 \<mapsto> \<lparr>due = 5800, cb = SequenceComplete ''ABCD'' round1\<rparr>], next_timer := 3,
     now := 4500, outbox := ticks @ [(4500, ToRoom ''ABCD'', SimonShowSequence 1 [Red])]\<rparr>"
  unfolding showing_def started_eq
  by (simp add: fire_defs prim_defs actor_defs spec_defs Let_def fun_eq_iff)

lemma shown_eq: "shown = started\<lparr>
     timers := [3 \<mapsto> \<lparr>due = 6300, cb = InputPhase ''ABCD'' round1\<rparr>], next_timer := 4,
     now := 5800, outbox := ticks @ [(4500, ToRoom ''ABCD'', SimonShowSequence 1 [Red]),
        (5800, ToRoom ''ABCD'', SimonSequenceComplete)]\<rparr>"
  unfolding shown_def showing_eq started_eq
  by (simp add: fire_defs prim_defs actor_defs spec_defs Let_def fun_eq_iff)

lemma input_open_eq: "input_open = idle\<lparr>registry := [''ABCD'' \<mapsto> playing], next_timer := 4,
     now := 6300, outbox := prelude\<rparr>"
  unfolding input_open_def shown_eq started_eq
  by (simp add: fire_defs prim_defs actor_defs spec_defs Let_def fun_eq_iff)

lemma wrong1_eq: "wrong1 = input_open\<lparr>
     timers := [4 \<mapsto> \<lparr>due = 9000, cb = EliminateAndFinish ''ABCD'' round1 ''alice'' playing\<rparr>],
     next_timer := 5, now := 7000,
     outbox := prelude @ [(7000, ToRoom ''ABCD'', SimonResult ''alice'' ''Alice'' False [Red])]\<rparr>"
  unfolding wrong1_def input_open_eq
  by (simp add: simon_submit_sequence_def prim_defs spec_defs actor_defs Let_def fun_eq_iff)

lemma wrong2_eq: "wrong2 = input_open\<lparr>
     timers := [4 \<mapsto> \<lparr>due = 9000, cb = EliminateAndFinish ''ABCD'' round1 ''alice'' playing\<rparr>,
                5 \<mapsto> \<lparr>due = 9500, cb = EliminateAndFinish ''ABCD'' round1 ''alice'' playing\<rparr>],
     next_timer := 6, now := 7500,
     outbox := prelude @ [(7000, ToRoom ''ABCD'', SimonResult ''alice'' ''Alice'' False [Red]),
                          (7500, ToRoom ''ABCD'', SimonResult ''alice'' ''Alice'' False [Red])]\<rparr>"
  unfolding wrong2_def wrong1_eq input_open_eq
  by (simp add: simon_submit_sequence_def prim_defs spec_defs actor_defs Let_def fun_eq_iff)

lemma over1_eq: "over1 = input_open\<lparr>registry := [''ABCD'' \<mapsto> game_over],
     timers := [5 \<mapsto> \<lparr>due = 9500, cb = EliminateAndFinish ''ABCD'' round1 ''alice'' playing\<rparr>],
     next_timer := 6, now := 9000,
     outbox := prelude @ [(7000, ToRoom ''ABCD'', SimonResult ''alice'' ''Alice'' False [Red]),
                          (7500, ToRoom ''ABCD'', SimonResult ''alice'' ''Alice'' False [Red]),
                          (9000, ToRoom ''ABCD'', SimonGameFinished [] ''No winner'' 1)]\<rparr>"
  unfolding over1_def wrong2_eq input_open_eq
  by (simp add: fire_defs prim_defs spec_defs actor_defs Let_def fun_eq_iff alice_out_def
      game_over_def)

lemma over2_eq: "over2 = over1\<lparr>timers := Map.empty, now := 9500,
     outbox := outbox over1 @ [(9500, ToRoom ''ABCD'', SimonGameFinished [] ''No winner'' 1)]\<rparr>"
  unfolding over2_def over1_eq input_open_eq
  by (simp add: fire_defs prim_defs spec_defs actor_defs Let_def fun_eq_iff alice_out_def
      game_over_def)

lemma lone_finish_eq: "lone_finish = input_open\<lparr>registry := [''ABCD'' \<mapsto> game_over],
     next_timer := 5, now := 9000,
     outbox := prelude @ [(7000, ToRoom ''ABCD'', SimonResult ''alice'' ''Alice'' False [Red]),
                          (9000, ToRoom ''ABCD'', SimonGameFinished [] ''No winner'' 1)]\<rparr>"
  unfolding lone_finish_def wrong1_eq input_open_eq
  by (simp add: fire_defs prim_defs spec_defs actor_defs Let_def fun_eq_iff alice_out_def
      game_over_def)

lemma done1_eq: "done1 = input_open\<lparr>
     registry := [''ABCD'' \<mapsto> playing\<lparr>gameState := Some (Simon alice_done)\<rparr>], now := 7000,
     outbox := prelude @ [(7000, ToRoom ''ABCD'', SimonInputCorrect ''alice'' 0)]\<rparr>"
  unfolding done1_def input_open_eq
  by (simp add: simon_submit_input_def prim_defs spec_defs actor_defs Let_def fun_eq_iff
      alice_done_def)

lemma again_eq: "again = input_open\<lparr>
     registry := [''ABCD'' \<mapsto>
        playing\<lparr>gameState := Some (Simon (spec_eliminatePlayer alice_done ''alice'' 1))\<rparr>],
     now := 7300,
     outbox := prelude @ [(7000, ToRoom ''ABCD'', SimonInputCorrect ''alice'' 0),
        (7300, ToRoom ''ABCD'', SimonPlayerEliminated ''alice'' ''Alice'' ''wrong_color'')]\<rparr>"
  unfolding again_def done1_eq input_open_eq
  by (simp add: simon_submit_input_def prim_defs spec_defs actor_defs Let_def fun_eq_iff
      alice_done_def)

lemma tab_joined_eq: "tab_joined = (alice_socket ''s1'',
     idle\<lparr>outbox := [(0, ToSocket ''s1'', RoomState ''ABCD''),
                      (0, ToRoom ''ABCD'', RoomStateUpdate ''ABCD''),
                      (0, ToRoomExcept ''ABCD'' ''s1'', PlayerJoined ''alice'')]\<rparr>)"
  unfolding tab_joined_def
  by (simp add: join_room_socket_def prim_defs actor_defs Let_def fun_eq_iff alice_socket_def)

lemma dropped_eq: "dropped = (snd tab_joined)\<lparr>
     disconnectTimeouts := [''ABCD:alice'' \<mapsto> 0],
     timers := [0 \<mapsto> \<lparr>due = 5000, cb = BufferTimeout ''ABCD'' ''alice'' (Some ''Alice'')\<rparr>],
     next_timer := 1\<rparr>"
  unfolding dropped_def tab_joined_eq
  by (simp add: handleDisconnect_def prim_defs spec_defs actor_defs Let_def fun_eq_iff alice_socket_def)

lemma rejoined_eq: "rejoined = (alice_socket ''s8'',
     dropped\<lparr>registry := [''ABCD'' \<mapsto> lobby\<lparr>players := [alice\<lparr>socketId := ''s8''\<rparr>, bob, carol]\<rparr>],
       now := 1000,
       outbox := outbox dropped @ [(1000, ToSocket ''s8'', RoomState ''ABCD''),
                      (1000, ToRoom ''ABCD'', RoomStateUpdate ''ABCD''),
                      (1000, ToRoomExcept ''ABCD'' ''s8'', PlayerJoined ''alice'')]\<rparr>)"
  unfolding rejoined_def dropped_eq tab_joined_eq
  by (simp add: join_room_socket_def prim_defs actor_defs Let_def fun_eq_iff alice_socket_def)

lemma demoted_eq: "demoted = (snd rejoined)\<lparr>
     registry := [''ABCD'' \<mapsto>
        lobby\<lparr>players := [alice\<lparr>socketId := ''s8'', connected := False\<rparr>, bob, carol]\<rparr>],
     disconnectTimeouts := [''ABCD:alice'' \<mapsto> 1],
     timers := [1 \<mapsto> \<lparr>due = 35000, cb = RemovalTimeout ''ABCD'' ''alice'' (Some ''Alice'')\<rparr>],
     next_timer := 2, now := 5000,
     outbox := outbox (snd rejoined) @
        [(5000, ToRoom ''ABCD'', PlayerDisconnected ''alice'' (Some ''Alice''))]\<rparr>"
  unfolding demoted_def rejoined_eq dropped_eq tab_joined_eq
  by (simp add: fire_defs prim_defs spec_defs actor_defs Let_def fun_eq_iff alice_socket_def)

lemma evicted_eq: "evicted = demoted\<lparr>
     registry := [''ABCD'' \<mapsto> lobby\<lparr>players := [bob, carol]\<rparr>],
     disconnectTimeouts := Map.empty, timers := Map.empty, now := 35000,
     outbox := outbox demoted @ [(35000, ToRoom ''ABCD'', PlayerLeft ''alice''),
                                 (35000, ToRoom ''ABCD'', RoomStateUpdate ''ABCD'')]\<rparr>"
  unfolding evicted_def demoted_eq rejoined_eq dropped_eq tab_joined_eq
  by (simp add: fire_defs prim_defs spec_defs actor_defs Let_def fun_eq_iff alice_socket_def)

lemma second_tab_eq: "second_tab = (alice_socket ''s7'',
     (snd tab_joined)\<lparr>
       registry := [''ABCD'' \<mapsto> lobby\<lparr>players := [alice\<lparr>socketId := ''s7''\<rparr>, bob, carol]\<rparr>],
       outbox := outbox (snd tab_joined) @ [(0, ToSocket ''s7'', RoomState ''ABCD''),
                      (0, ToRoom ''ABCD'', RoomStateUpdate ''ABCD''),
                      (0, ToRoomExcept ''ABCD'' ''s7'', PlayerJoined ''alice'')]\<rparr>)"
  unfolding second_tab_def tab_joined_eq
  by (simp add: join_room_socket_def prim_defs actor_defs Let_def fun_eq_iff alice_socket_def)

lemma drop1_eq: "drop1 = (snd second_tab)\<lparr>
     disconnectTimeouts := [''ABCD:alice'' \<mapsto> 0],
     timers := [0 \<mapsto> \<lparr>due = 5000, cb = BufferTimeout ''ABCD'' ''alice'' (Some ''Alice'')\<rparr>],
     next_timer := 1\<rparr>"
  unfolding drop1_def second_tab_eq tab_joined_eq
  by (simp add: handleDisconnect_def prim_defs spec_defs actor_defs Let_def fun_eq_iff alice_socket_def)

lemma drop2_eq: "drop2 = (snd second_tab)\<lparr>
     disconnectTimeouts := [''ABCD:alice'' \<mapsto> 1],
     timers := [0 \<mapsto> \<lparr>due = 5000, cb = BufferTimeout ''ABCD'' ''alice'' (Some ''Alice'')\<rparr>,
                1 \<mapsto> \<lparr>due = 5100, cb = BufferTimeout ''ABCD'' ''alice'' (Some ''Alice'')\<rparr>],
     next_timer := 2, now := 100\<rparr>"
  unfolding drop2_def drop1_eq second_tab_eq tab_joined_eq
  by (simp add: handleDisconnect_def prim_defs spec_defs actor_defs Let_def fun_eq_iff alice_socket_def)

lemma answered_eq: "answered = racing\<lparr>
     registry := [''RACE'' \<mapsto> race_room\<lparr>gameState := Some (ColorRace after_last)\<rparr>],
     roundAnswers := [''RACE'' \<mapsto> [first_answer]],
     outbox := [(0, ToRoom ''RACE'',
        ColorRaceRoundResult (Some ''alice'') (Some ''Alice'') [(''alice'', 2), (''bob'', 4)])]\<rparr>"
  unfolding answered_def
  by (simp add: color_race_submit_answer_def processColorRaceRound_def prim_defs spec_defs
      actor_defs Let_def fun_eq_iff racing_def race_room_def last_round_def first_answer_def
      after_last_def)

lemma answered_twice_eq: "answered_twice = answered\<lparr>
     registry := [''RACE'' \<mapsto>
        race_room\<lparr>gameState :=
          Some (ColorRace (spec_processRound after_last [first_answer, second_answer]))\<rparr>],
     roundAnswers := [''RACE'' \<mapsto> [first_answer, second_answer]], now := 1000,
     outbox := outbox answered @ [(1000, ToRoom ''RACE'',
        ColorRaceRoundResult (Some ''alice'') (Some ''Alice'') [(''alice'', 3), (''bob'', 4)])]\<rparr>"
  unfolding answered_twice_def answered_eq
  by (simp add: color_race_submit_answer_def processColorRaceRound_def prim_defs spec_defs
      actor_defs Let_def fun_eq_iff racing_def race_room_def last_round_def first_answer_def
      second_answer_def after_last_def)

section \<open>Properties of the platform handlers\<close>

lemma start_game_ok:
  assumes "getRoom st code = Some room" "find_player pid (players room) = Some p" "isHost p"
    "status room = Waiting"
  shows "start_game code pid sock st =
         st\<lparr>registry := (registry st)(code \<mapsto> room\<lparr>status := Countdown\<rparr>),
            timers := (timers st)(next_timer st \<mapsto> \<lparr>due = now st + 1000, cb = CountdownInterval code 3\<rparr>),
            next_timer := Suc (next_timer st)\<rparr>"
  using assms
  by (simp add: start_game_def startCountdown_def updateRoomStatus_def map_room_def getRoom_def
      setTimeout_def timer_delay_def)

lemma start_game_refused:
  assumes "\<not> may_start st code pid"
  shows "\<exists>msg. start_game code pid sock st =
           st\<lparr>outbox := outbox st @ [(now st, ToSocket (sock_id sock), Error msg)]\<rparr>"
  using assms
  by (auto simp: may_start_def start_game_def emit_def split: option.splits)

lemma fire_countdown_tick:
  assumes "timers st tid = Some \<lparr>due = d, cb = CountdownInterval code c\<rparr>" "c \<noteq> 0"
  shows "fire x tid st =
         st\<lparr>now := max (now st) d,
            outbox := outbox st @ [(max (now st) d, ToRoom code, CountdownTick c)],
            timers := (timers st)(tid \<mapsto>
               \<lparr>due = max (now st) d + 1000, cb = CountdownInterval code (c - 1)\<rparr>)\<rparr>"
  using assms by (simp add: fire_def countdown_callback_def emit_def)

lemma fire_countdown_zero:
  assumes "timers st tid = Some \<lparr>due = d, cb = CountdownInterval code 0\<rparr>"
    "getRoom st code = Some room"
  shows "fire x tid st =
         st\<lparr>now := max (now st) d,
            outbox := outbox st @ [(max (now st) d, ToRoom code, CountdownTick 0)],
            registry := (registry st)(code \<mapsto>
               room\<lparr>status := Active,
                    gameState := Some (Simon (initializeSimonGame x (players room)))\<rparr>),
            timers := ((timers st)(tid := None))(next_timer st \<mapsto>
               \<lparr>due = max (now st) d + 500,
                cb = StartSimonSequence code (initializeSimonGame x (players room))\<rparr>),
            next_timer := Suc (next_timer st)\<rparr>"
  using assms
  by (simp add: fire_def countdown_callback_def emit_def clearTimeout_def updateRoomStatus_def
      updateGameState_def map_room_def getRoom_def setTimeout_def timer_delay_def gameType_def
      Let_def)


lemma removePlayer_failed: "removePlayer code pid st = (False, st') \<Longrightarrow> st' = st"
  by (auto simp: removePlayer_def split: option.splits)

text \<open>
  C8. Starting a game. When the room exists, the requester is its host and the room is
  waiting, \<^verbatim>\<open>start_game\<close> sets the status to countdown and emits nothing yet; the four
  runs of the interval callback emit the ticks 3, 2, 1, 0 to the room, one second apart,
  the first one second after the request; the status stays countdown until the last
  tick, which sets it to active and stores the Simon state built by the initializer from
  the room's players, and the interval is cleared. In every other case the only effect
  is one error notice to the requesting socket.
\<close>

theorem start_game_countdown:
  "(may_start st code pid \<longrightarrow>
      (let tid = next_timer st; t0 = now st;
           s0 = start_game code pid sock st;
           s1 = fire x tid s0; s2 = fire x tid s1; s3 = fire x tid s2; s4 = fire x tid s3
       in map_option status (getRoom s0 code) = Some Countdown \<and> outbox s0 = outbox st \<and>
          map_option status (getRoom s3 code) = Some Countdown \<and>
          outbox s4 = outbox st @
            [(t0 + 1000, ToRoom code, CountdownTick 3), (t0 + 2000, ToRoom code, CountdownTick 2),
             (t0 + 3000, ToRoom code, CountdownTick 1), (t0 + 4000, ToRoom code, CountdownTick 0)] \<and>
          (\<exists>room. getRoom st code = Some room \<and>
             getRoom s4 code =
               Some (room\<lparr>status := Active,
                          gameState := Some (Simon (initializeSimonGame x (players room)))\<rparr>)) \<and>
          timers s4 tid = None)) \<and>
   (\<not> may_start st code pid \<longrightarrow>
      (\<exists>msg. start_game code pid sock st =
         st\<lparr>outbox := outbox st @ [(now st, ToSocket (sock_id sock), Error msg)]\<rparr>))"
proof (intro conjI impI)
  assume ok: "may_start st code pid"
  then obtain room p where room: "getRoom st code = Some room"
    and p: "find_player pid (players room) = Some p" "isHost p" and w: "status room = Waiting"
    by (auto simp: may_start_def split: option.splits)
  define tid where "tid = next_timer st"
  define s0 where "s0 = start_game code pid sock st"
  define s1 where "s1 = fire x tid s0"
  define s2 where "s2 = fire x tid s1"
  define s3 where "s3 = fire x tid s2"
  define s4 where "s4 = fire x tid s3"
  have e0: "s0 = st\<lparr>registry := (registry st)(code \<mapsto> room\<lparr>status := Countdown\<rparr>),
            timers := (timers st)(tid \<mapsto> \<lparr>due = now st + 1000, cb = CountdownInterval code 3\<rparr>),
            next_timer := Suc tid\<rparr>"
    unfolding s0_def tid_def by (rule start_game_ok [OF room p w])
  have t0: "timers s0 tid = Some \<lparr>due = now st + 1000, cb = CountdownInterval code 3\<rparr>"
    by (simp add: e0)
  have e1: "s1 = s0\<lparr>now := now st + 1000,
            outbox := outbox st @ [(now st + 1000, ToRoom code, CountdownTick 3)],
            timers := (timers s0)(tid \<mapsto> \<lparr>due = now st + 2000, cb = CountdownInterval code 2\<rparr>)\<rparr>"
    unfolding s1_def by (simp add: fire_countdown_tick [OF t0]) (simp add: e0 ac_simps)
  have t1: "timers s1 tid = Some \<lparr>due = now st + 2000, cb = CountdownInterval code 2\<rparr>"
    by (simp add: e1)
  have e2: "s2 = s1\<lparr>now := now st + 2000,
            outbox := outbox s1 @ [(now st + 2000, ToRoom code, CountdownTick 2)],
            timers := (timers s1)(tid \<mapsto> \<lparr>due = now st + 3000, cb = CountdownInterval code 1\<rparr>)\<rparr>"
    unfolding s2_def by (simp add: fire_countdown_tick [OF t1]) (simp add: e1 ac_simps)
  have t2: "timers s2 tid = Some \<lparr>due = now st + 3000, cb = CountdownInterval code 1\<rparr>"
    by (simp add: e2)
  have e3: "s3 = s2\<lparr>now := now st + 3000,
            outbox := outbox s2 @ [(now st + 3000, ToRoom code, CountdownTick 1)],
            timers := (timers s2)(tid \<mapsto> \<lparr>due = now st + 4000, cb = CountdownInterval code 0\<rparr>)\<rparr>"
    unfolding s3_def by (simp add: fire_countdown_tick [OF t2]) (simp add: e2 ac_simps)
  have t3: "timers s3 tid = Some \<lparr>due = now st + 4000, cb = CountdownInterval code 0\<rparr>"
    by (simp add: e3)
  have r3: "getRoom s3 code = Some (room\<lparr>status := Countdown\<rparr>)"
    by (simp add: e3 e2 e1 e0 getRoom_def)
  have e4: "outbox s4 = outbox s3 @ [(now st + 4000, ToRoom code, CountdownTick 0)]"
    "getRoom s4 code = Some (room\<lparr>status := Active,
        gameState := Some (Simon (initializeSimonGame x (players room)))\<rparr>)"
    "timers s4 tid = None"
    unfolding s4_def by (simp_all add: fire_countdown_zero [OF t3 r3] getRoom_def) (simp_all add: e3 e2 e1 e0 ac_simps)
  show "let tid = next_timer st; t0 = now st;
           s0 = start_game code pid sock st;
           s1 = fire x tid s0; s2 = fire x tid s1; s3 = fire x tid s2; s4 = fire x tid s3
       in map_option status (getRoom s0 code) = Some Countdown \<and> outbox s0 = outbox st \<and>
          map_option status (getRoom s3 code) = Some Countdown \<and>
          outbox s4 = outbox st @
            [(t0 + 1000, ToRoom code, CountdownTick 3), (t0 + 2000, ToRoom code, CountdownTick 2),
             (t0 + 3000, ToRoom code, CountdownTick 1), (t0 + 4000, ToRoom code, CountdownTick 0)] \<and>
          (\<exists>room. getRoom st code = Some room \<and>
             getRoom s4 code =
               Some (room\<lparr>status := Active,
                          gameState := Some (Simon (initializeSimonGame x (players room)))\<rparr>)) \<and>
          timers s4 tid = None"
    unfolding Let_def tid_def [symmetric] s0_def [symmetric] s1_def [symmetric]
      s2_def [symmetric] s3_def [symmetric] s4_def [symmetric]
    using e4 r3 room by (simp add: e3 e2 e1 e0 getRoom_def ac_simps)
next
  assume "\<not> may_start st code pid"
  then show "\<exists>msg. start_game code pid sock st =
         st\<lparr>outbox := outbox st @ [(now st, ToSocket (sock_id sock), Error msg)]\<rparr>"
    by (rule start_game_refused)
qed

theorem start_game_countdown_witness:
  "may_start idle ''ABCD'' ''alice'' \<and>
   outbox (fire spec_ext 0 (fire spec_ext 0 (fire spec_ext 0 (fire spec_ext 0
      (start_game ''ABCD'' ''alice'' (fresh_socket ''s1'') idle))))) =
     [(1000, ToRoom ''ABCD'', CountdownTick 3), (2000, ToRoom ''ABCD'', CountdownTick 2),
      (3000, ToRoom ''ABCD'', CountdownTick 1), (4000, ToRoom ''ABCD'', CountdownTick 0)] \<and>
   \<not> may_start idle ''ABCD'' ''bob'' \<and>
   (\<exists>msg. start_game ''ABCD'' ''bob'' (fresh_socket ''s2'') idle =
      idle\<lparr>outbox := outbox idle @ [(now idle, ToSocket ''s2'', Error msg)]\<rparr>)"
proof -
  have a: "may_start idle ''ABCD'' ''alice''" and b: "\<not> may_start idle ''ABCD'' ''bob''"
    by (simp_all add: may_start_def getRoom_def find_player_def idle_def lobby_def alice_def bob_def
        carol_def)
  have n: "next_timer idle = 0" "now idle = 0" "outbox idle = []"
    by (simp_all add: idle_def)
  have s: "sock_id (fresh_socket ''s2'') = ''s2''"
    by (simp add: fresh_socket_def)
  from start_game_countdown [of idle "''ABCD''" "''alice''" "fresh_socket ''s1''" spec_ext] a
  have c: "outbox (fire spec_ext 0 (fire spec_ext 0 (fire spec_ext 0 (fire spec_ext 0
      (start_game ''ABCD'' ''alice'' (fresh_socket ''s1'') idle))))) =
     [(1000, ToRoom ''ABCD'', CountdownTick 3), (2000, ToRoom ''ABCD'', CountdownTick 2),
      (3000, ToRoom ''ABCD'', CountdownTick 1), (4000, ToRoom ''ABCD'', CountdownTick 0)]"
    by (simp add: Let_def n)
  from start_game_countdown [of idle "''ABCD''" "''bob''" "fresh_socket ''s2''" spec_ext] b
  have d: "\<exists>msg. start_game ''ABCD'' ''bob'' (fresh_socket ''s2'') idle =
      idle\<lparr>outbox := outbox idle @ [(now idle, ToSocket ''s2'', Error msg)]\<rparr>"
    by (simp add: s)
  from a b c d show ?thesis by blast
qed

text \<open>
  C9. A disconnect of a socket that carries no player id or no game code (undefined or
  empty) leaves the whole engine state as it was: no timer, no entry in the timeout
  table, no registry change, nothing emitted.
\<close>

theorem disconnect_without_session_noop:
  "\<not> truthy (playerId sock) \<or> \<not> truthy (gameCode sock) \<Longrightarrow> handleDisconnect x sock st = st"
  by (simp add: handleDisconnect_def)

theorem disconnect_without_session_noop_witness:
  "\<not> truthy (playerId (fresh_socket ''s9'')) \<and>
   handleDisconnect spec_ext (fresh_socket ''s9'') idle = idle"
  using disconnect_without_session_noop [of "fresh_socket ''s9''" spec_ext idle]
  by (simp add: fresh_socket_def truthy_def)

text \<open>
  C10. \<^verbatim>\<open>leave_room\<close> always ends with the three session fields of the socket cleared,
  whether or not the registry removed the player; when the removal fails the engine state
  is untouched, so nothing is emitted; and a disconnect of the socket as the handler left
  it is a no-op in any later engine state, so it starts no grace timer.
\<close>

theorem leave_room_clears_session:
  assumes "leave_room code pid (sock, st) = (sock', st')"
  shows "playerId sock' = None \<and> gameCode sock' = None \<and> displayName sock' = None \<and>
         (\<not> fst (removePlayer code pid st) \<longrightarrow> st' = st \<and> outbox st' = outbox st) \<and>
         (\<forall>x st2. handleDisconnect x sock' st2 = st2)"
  using assms
  by (auto simp: leave_room_def handleDisconnect_def truthy_def Let_def
        dest: removePlayer_failed split: prod.splits if_splits option.splits)

theorem leave_room_clears_session_witness:
  "playerId (fst (leave_room ''ABCD'' ''zed'' (bound_socket ''s3'' ''ABCD'' ''zed'', idle))) = None \<and>
   snd (leave_room ''ABCD'' ''zed'' (bound_socket ''s3'' ''ABCD'' ''zed'', idle)) = idle \<and>
   handleDisconnect spec_ext
     (fst (leave_room ''ABCD'' ''zed'' (bound_socket ''s3'' ''ABCD'' ''zed'', idle))) idle = idle"
proof -
  have f: "\<not> fst (removePlayer ''ABCD'' ''zed'' idle)"
    by (simp add: removePlayer_def find_player_def idle_def lobby_def alice_def bob_def carol_def)
  have e: "leave_room ''ABCD'' ''zed'' (bound_socket ''s3'' ''ABCD'' ''zed'', idle) =
           (fst (leave_room ''ABCD'' ''zed'' (bound_socket ''s3'' ''ABCD'' ''zed'', idle)),
            snd (leave_room ''ABCD'' ''zed'' (bound_socket ''s3'' ''ABCD'' ''zed'', idle)))"
    by simp
  from leave_room_clears_session [OF e] f show ?thesis by blast
qed


text \<open>The explicit join leaves the timeout table and the pending timers as they were.\<close>

lemma join_room_socket_keeps_timers:
  "disconnectTimeouts (snd (join_room_socket code pid (sock, st))) = disconnectTimeouts st \<and>
   timers (snd (join_room_socket code pid (sock, st))) = timers st"
  by (simp add: join_room_socket_def prim_defs Let_def split: option.splits)

text \<open>
  X2. A token-based reconnect of a player who is in the room cancels the grace timer
  that the timeout table holds for the player's key and deletes the entry.
\<close>

theorem handleAutoReconnect_cancels:
  assumes "getRoom st code = Some room" "find_player pid (players room) = Some p"
    "disconnectTimeouts st (timeoutKey code pid) = Some t"
  shows "disconnectTimeouts (snd (handleAutoReconnect (Some (pid, code, dname)) (sock, st)))
           (timeoutKey code pid) = None \<and>
         timers (snd (handleAutoReconnect (Some (pid, code, dname)) (sock, st))) t = None"
  using assms
  by (simp add: handleAutoReconnect_def getRoom_def updateSocketId_def map_room_def emit_def
      clearTimeout_def Let_def)

theorem handleAutoReconnect_cancels_witness:
  "disconnectTimeouts dropped (timeoutKey ''ABCD'' ''alice'') = Some 0 \<and>
   timers dropped 0 \<noteq> None \<and>
   disconnectTimeouts
     (snd (handleAutoReconnect (Some (''alice'', ''ABCD'', ''Alice'')) (fresh_socket ''s9'', dropped)))
     (timeoutKey ''ABCD'' ''alice'') = None \<and>
   timers
     (snd (handleAutoReconnect (Some (''alice'', ''ABCD'', ''Alice'')) (fresh_socket ''s9'', dropped)))
     0 = None"
proof -
  have g: "getRoom dropped ''ABCD'' = Some lobby" "find_player ''alice'' (players lobby) = Some alice"
    "disconnectTimeouts dropped (timeoutKey ''ABCD'' ''alice'') = Some 0"
    and t: "timers dropped 0 \<noteq> None"
    unfolding dropped_eq tab_joined_eq
    by (simp_all add: getRoom_def find_player_def timeoutKey_def idle_def lobby_def alice_def)
  from handleAutoReconnect_cancels [OF g, of "''Alice''" "fresh_socket ''s9''"] g t
  show ?thesis by simp
qed

text \<open>What the explicit join and the disconnect handler do to pending timers.\<close>

lemma handleDisconnect_keeps_pending:
  assumes "truthy (playerId sock)" "truthy (gameCode sock)" "timers st t = Some tm"
    "t \<noteq> next_timer st"
  shows "timers (handleDisconnect x sock st) t = Some tm \<and>
         timers (handleDisconnect x sock st) (next_timer st) =
           Some \<lparr>due = now st + timer_delay (DISCONNECT_BUFFER_MS x),
                 cb = BufferTimeout (the (gameCode sock)) (the (playerId sock)) (displayName sock)\<rparr>"
  using assms by (simp add: handleDisconnect_def setTimeout_def Let_def)

text \<open>
  C2. The specification states that a new grace timer for a (room, player) key replaces
  the prior live one, so that at most one is pending.
  \<^verbatim>\<open>handleDisconnect\<close> stores the new handle in the table without
  clearing the timer whose handle it overwrites. In the run where Alice has the room open
  on two sockets and both drop within the buffer delay, two buffer timers for her key are
  pending at once, due at 5000 ms and 5100 ms, and the table knows only the second.
\<close>

theorem two_live_grace_timers:
  "live_grace drop2 ''ABCD'' ''alice'' = [0, 1] \<and>
   timers drop2 0 = Some \<lparr>due = 5000, cb = BufferTimeout ''ABCD'' ''alice'' (Some ''Alice'')\<rparr> \<and>
   timers drop2 1 = Some \<lparr>due = 5100, cb = BufferTimeout ''ABCD'' ''alice'' (Some ''Alice'')\<rparr> \<and>
   disconnectTimeouts drop2 (timeoutKey ''ABCD'' ''alice'') = Some 1"
  unfolding drop2_eq by (simp add: live_grace_def upt_rec timeoutKey_def)

text \<open>
  C3. The specification states that any rebind, token-based or by explicit join request,
  cancels the live grace timer and deletes its table entry, so that a player who
  reconnects before the removal timer fires is never announced as having left.
  \<^verbatim>\<open>join_room_socket\<close> does neither. In the run where Alice's
  socket drops and she joins again explicitly one second later, the new socket is bound to
  her, the table still holds the buffer timer and the timer is still pending; it fires at
  5000 ms and marks her disconnected, the removal timer fires at 35000 ms, removes her
  from the room and broadcasts that she left.
\<close>

theorem explicit_rejoin_keeps_grace_timer:
  "playerId (fst rejoined) = Some ''alice'' \<and> gameCode (fst rejoined) = Some ''ABCD'' \<and>
   disconnectTimeouts (snd rejoined) (timeoutKey ''ABCD'' ''alice'') = Some 0 \<and>
   live_grace (snd rejoined) ''ABCD'' ''alice'' = [0] \<and>
   outbox evicted = outbox (snd rejoined) @
     [(5000, ToRoom ''ABCD'', PlayerDisconnected ''alice'' (Some ''Alice'')),
      (35000, ToRoom ''ABCD'', PlayerLeft ''alice''),
      (35000, ToRoom ''ABCD'', RoomStateUpdate ''ABCD'')] \<and>
   map_option (map p_id \<circ> players) (getRoom evicted ''ABCD'') = Some [''bob'', ''carol'']"
  unfolding evicted_eq unfolding demoted_eq unfolding rejoined_eq unfolding dropped_eq
  by (simp add: live_grace_def upt_rec timeoutKey_def alice_socket_def getRoom_def lobby_def
      bob_def carol_def)

section \<open>Properties of the race game\<close>

text \<open>
  X1. Race game: an answer of a player who already has a recorded answer in the room's
  list changes nothing at all, whatever the room and its game are.
\<close>

theorem submit_answer_duplicate:
  "list_ex (\<lambda>a. a_playerId a = pid) (answers_of st code) \<Longrightarrow>
   color_race_submit_answer x code pid c st = st"
  by (simp add: color_race_submit_answer_def split: option.splits game_state.splits)

theorem submit_answer_duplicate_witness:
  "list_ex (\<lambda>a. a_playerId a = ''alice'') (answers_of answered ''RACE'') \<and>
   color_race_submit_answer spec_ext ''RACE'' ''alice'' Red answered = answered"
proof -
  have d: "list_ex (\<lambda>a. a_playerId a = ''alice'') (answers_of answered ''RACE'')"
    unfolding answered_eq by (simp add: answers_of_def first_answer_def)
  from submit_answer_duplicate [OF d] d show ?thesis by simp
qed

text \<open>
  The other two outcomes of an answer in an active race: below the number of connected
  players the answer is only recorded; otherwise the round is resolved once and, when the
  resolution returns, the list is cleared.
\<close>

lemma submit_answer_collects:
  assumes "getRoom st code = Some room" "status room = Active"
    "gameState room = Some (ColorRace gs)"
    "\<not> list_ex (\<lambda>a. a_playerId a = pid) (answers_of st code)"
    "Suc (length (answers_of st code)) < length (filter connected (players room))"
  shows "color_race_submit_answer x code pid c st =
         st\<lparr>roundAnswers := (roundAnswers st)(code \<mapsto>
              answers_of st code @ [\<lparr>a_playerId = pid, a_color = c, a_timestamp = now st\<rparr>])\<rparr>"
  using assms by (simp add: color_race_submit_answer_def Let_def)

lemma submit_answer_resolves:
  assumes "getRoom st code = Some room" "status room = Active"
    "gameState room = Some (ColorRace gs)"
    "\<not> list_ex (\<lambda>a. a_playerId a = pid) (answers_of st code)"
    "length (filter connected (players room)) \<le> Suc (length (answers_of st code))"
    "processColorRaceRound x code room gs
       (answers_of st code @ [\<lparr>a_playerId = pid, a_color = c, a_timestamp = now st\<rparr>])
       (st\<lparr>roundAnswers := (roundAnswers st)(code \<mapsto>
              answers_of st code @ [\<lparr>a_playerId = pid, a_color = c, a_timestamp = now st\<rparr>])\<rparr>)
     = Inr st2"
  shows "color_race_submit_answer x code pid c st = st2\<lparr>roundAnswers := (roundAnswers st2)(code \<mapsto> [])\<rparr>"
  using assms by (simp add: color_race_submit_answer_def Let_def)

text \<open>
  When the resolved round ends the game and the winner cannot be found among the players
  of the room, the resolution raises after the round result went out: the answer stays
  recorded and the room stays active.
\<close>

lemma processColorRaceRound_raises:
  assumes "phase (processRound x gs answers) = RaceFinished"
    "find_player_opt (determineWinner x (processRound x gs answers)) (players room) = None"
  shows "\<exists>ev. processColorRaceRound x code room gs answers st =
           Inl (TypeError,
                emit (ToRoom code) ev
                  (updateGameState code (ColorRace (processRound x gs answers)) st))"
  using assms
  by (auto simp: processColorRaceRound_def find_player_opt_def Let_def split: option.splits)

lemma submit_answer_failed_finish:
  assumes "getRoom st code = Some room" "status room = Active"
    "gameState room = Some (ColorRace gs)"
    "\<not> list_ex (\<lambda>a. a_playerId a = pid) (answers_of st code)"
    "length (filter connected (players room)) \<le> Suc (length (answers_of st code))"
    "phase (processRound x gs
       (answers_of st code @ [\<lparr>a_playerId = pid, a_color = c, a_timestamp = now st\<rparr>])) =
     RaceFinished"
    "find_player_opt (determineWinner x (processRound x gs
       (answers_of st code @ [\<lparr>a_playerId = pid, a_color = c, a_timestamp = now st\<rparr>])))
       (players room) = None"
  shows "answers_of (color_race_submit_answer x code pid c st) code =
           answers_of st code @ [\<lparr>a_playerId = pid, a_color = c, a_timestamp = now st\<rparr>] \<and>
         map_option status (getRoom (color_race_submit_answer x code pid c st) code) = Some Active"
proof -
  define answers1 where
    "answers1 = answers_of st code @ [\<lparr>a_playerId = pid, a_color = c, a_timestamp = now st\<rparr>]"
  define st1 where "st1 = st\<lparr>roundAnswers := (roundAnswers st)(code \<mapsto> answers1)\<rparr>"
  obtain ev where r: "processColorRaceRound x code room gs answers1 st1 =
      Inl (TypeError,
           emit (ToRoom code) ev
             (updateGameState code (ColorRace (processRound x gs answers1)) st1))"
    using processColorRaceRound_raises [OF assms(6,7) [folded answers1_def]] by blast
  have l: "length (filter connected (players room)) \<le> length answers1"
    using assms(5) by (simp add: answers1_def)
  have "color_race_submit_answer x code pid c st =
        emit (ToRoom code) ev (updateGameState code (ColorRace (processRound x gs answers1)) st1)"
    using assms(1-4) r l
    by (simp add: color_race_submit_answer_def Let_def answers1_def [symmetric]
        st1_def [symmetric])
  then show ?thesis
    using assms(1,2)
    by (simp add: answers_of_def updateGameState_def map_room_def emit_def getRoom_def
        st1_def answers1_def)
qed

text \<open>
  C1. The specification states that round resolution runs exactly once per round and that
  the answer list is empty after it. In the last round of the race above, Alice's answer
  completes the round: the round is resolved and its result is broadcast, but the
  game-finished payload cannot be built because the winner by score, Bob, is no longer a
  player of the room. The exception ends the handler before the list is cleared and before
  the status changes: the list still holds Alice's answer and the room is still active.
  The next answer, under another player id, resolves the round a second time on the same
  list, and Alice's answer scores again.
\<close>

theorem race_answers_survive_failed_finish:
  "answers_of answered ''RACE'' = [first_answer] \<and>
   map_option status (getRoom answered ''RACE'') = Some Active \<and>
   outbox answered = [(0, ToRoom ''RACE'',
      ColorRaceRoundResult (Some ''alice'') (Some ''Alice'') [(''alice'', 2), (''bob'', 4)])] \<and>
   answers_of answered_twice ''RACE'' = [first_answer, second_answer] \<and>
   outbox answered_twice = outbox answered @ [(1000, ToRoom ''RACE'',
      ColorRaceRoundResult (Some ''alice'') (Some ''Alice'') [(''alice'', 3), (''bob'', 4)])]"
  unfolding answered_twice_eq unfolding answered_eq
  by (simp add: answers_of_def getRoom_def race_room_def racing_def)

section \<open>Properties of the sequence game\<close>

lemma not_accepting_sequence: "\<not> accepting st code pid \<Longrightarrow> simon_submit_sequence x code pid sq st = st"
  by (auto simp: accepting_def simon_submit_sequence_def
      split: option.splits game_state.splits if_splits)

lemma not_accepting_input: "\<not> accepting st code pid \<Longrightarrow> simon_submit_input x code pid c i st = st"
  by (auto simp: accepting_def simon_submit_input_def
      split: option.splits game_state.splits if_splits)

lemma acceptingE:
  assumes "accepting st code pid"
  obtains room gs ps where "getRoom st code = Some room" "status room = Active"
    "gameState room = Some (Simon gs)" "map_of (playerStates gs) pid = Some ps"
    "ps_status ps = Playing"
  using assms by (auto simp: accepting_def split: option.splits game_state.splits)

lemma submit_sequence_accepted:
  assumes "getRoom st code = Some room" "status room = Active" "gameState room = Some (Simon gs)"
    "map_of (playerStates gs) pid = Some ps" "ps_status ps = Playing"
  shows "simon_submit_sequence x code pid sq st =
         st\<lparr>outbox := outbox st @ [(now st, ToRoom code,
                SimonResult pid (name_or (find_player pid (players room)) ''Unknown'')
                  (validateSequence x gs sq) (s_sequence gs))],
            timers := (timers st)(next_timer st \<mapsto>
               \<lparr>due = now st + 2000,
                cb = (if validateSequence x gs sq then AdvanceSimon code
                      else EliminateAndFinish code gs pid room)\<rparr>),
            next_timer := Suc (next_timer st)\<rparr>"
  using assms
  by (simp add: simon_submit_sequence_def setTimeout_def timer_delay_def emit_def Let_def)

lemma submit_input_wrong:
  assumes "getRoom st code = Some room" "status room = Active" "gameState room = Some (Simon gs)"
    "map_of (playerStates gs) pid = Some ps" "ps_status ps = Playing"
    "\<not> validateInput x gs pid c i"
  shows "simon_submit_input x code pid c i st =
         st\<lparr>registry := (registry st)(code \<mapsto>
               room\<lparr>gameState := Some (Simon (eliminatePlayer x gs pid (s_round gs))),
                    status := (if shouldGameEnd x (eliminatePlayer x gs pid (s_round gs))
                               then Finished else Active)\<rparr>),
            outbox := outbox st @
              (now st, ToRoom code,
               SimonPlayerEliminated pid (name_or (find_player pid (players room)) ''Unknown'')
                 ''wrong_color'') #
              (if shouldGameEnd x (eliminatePlayer x gs pid (s_round gs))
               then [(now st, ToRoom code,
                      simon_game_finished x (eliminatePlayer x gs pid (s_round gs)) room)]
               else [])\<rparr>"
  using assms
  by (cases room)
    (simp add: simon_submit_input_def finishSimonGame_def updateRoomStatus_def
      updateGameState_def map_room_def emit_def getRoom_def Let_def)

lemma submit_input_right:
  assumes "getRoom st code = Some room" "status room = Active" "gameState room = Some (Simon gs)"
    "map_of (playerStates gs) pid = Some ps" "ps_status ps = Playing"
    "validateInput x gs pid c i"
  shows "registry (simon_submit_input x code pid c i st) =
           (registry st)(code \<mapsto> room\<lparr>gameState := Some (Simon (updatePlayerProgress x gs pid))\<rparr>) \<and>
         outbox (simon_submit_input x code pid c i st) =
           outbox st @ [(now st, ToRoom code, SimonInputCorrect pid i)]"
  using assms
  by (simp add: simon_submit_input_def setTimeout_def updateGameState_def map_room_def emit_def
      getRoom_def Let_def split: option.splits)

lemma submit_input_rejected_eliminates:
  assumes "getRoom st code = Some room" "status room = Active" "gameState room = Some (Simon gs)"
    "map_of (playerStates gs) pid = Some ps" "ps_status ps = Playing"
    "\<not> validateInput x gs pid c i"
  shows "\<exists>r. getRoom (simon_submit_input x code pid c i st) code = Some r \<and>
             gameState r = Some (Simon (eliminatePlayer x gs pid (s_round gs)))"
  using assms
  by (simp add: simon_submit_input_def finishSimonGame_def updateRoomStatus_def
      updateGameState_def map_room_def emit_def getRoom_def Let_def)

lemma eliminate_and_finish_always_emits:
  "outbox (eliminate_and_finish_callback x code gs pid room st) =
     outbox st @ [(now st, ToRoom code,
        simon_game_finished x (eliminatePlayer x gs pid (s_round gs)) room)]"
  by (simp add: eliminate_and_finish_callback_def finishSimonGame_def updateRoomStatus_def
      updateGameState_def map_room_def emit_def Let_def split: option.splits)

lemma eliminate_and_finish_room:
  "getRoom st code = Some r0 \<Longrightarrow>
   getRoom (eliminate_and_finish_callback x code gs pid room st) code =
     Some (r0\<lparr>gameState := Some (Simon (eliminatePlayer x gs pid (s_round gs))),
              status := Finished\<rparr>)"
  by (simp add: eliminate_and_finish_callback_def finishSimonGame_def updateRoomStatus_def
      updateGameState_def map_room_def emit_def getRoom_def Let_def)

text \<open>
  X3. The round-advance callback looks the room up when it fires and does nothing unless
  the room exists, is active and holds a sequence game.
\<close>

theorem advanceSimonRound_revalidates:
  "\<not> (\<exists>room gs. getRoom st code = Some room \<and> status room = Active \<and>
        gameState room = Some (Simon gs)) \<Longrightarrow> advanceSimonRound x code st = st"
  by (auto simp: advanceSimonRound_def split: option.splits game_state.splits)

theorem advanceSimonRound_revalidates_witness:
  "\<not> (\<exists>room gs. getRoom idle ''ABCD'' = Some room \<and> status room = Active \<and>
        gameState room = Some (Simon gs)) \<and>
   advanceSimonRound spec_ext ''ABCD'' idle = idle \<and>
   fire spec_ext 7 (idle\<lparr>timers := [7 \<mapsto> \<lparr>due = 2000, cb = AdvanceSimon ''ABCD''\<rparr>]\<rparr>) =
     idle\<lparr>now := 2000\<rparr>"
proof -
  have n: "\<not> (\<exists>room gs. getRoom idle ''ABCD'' = Some room \<and> status room = Active \<and>
        gameState room = Some (Simon gs))"
    "\<not> (\<exists>room gs. getRoom (idle\<lparr>now := 2000\<rparr>) ''ABCD'' = Some room \<and>
        status room = Active \<and> gameState room = Some (Simon gs))"
    by (simp_all add: getRoom_def idle_def lobby_def)
  have "fire spec_ext 7 (idle\<lparr>timers := [7 \<mapsto> \<lparr>due = 2000, cb = AdvanceSimon ''ABCD''\<rparr>]\<rparr>) =
        advanceSimonRound spec_ext ''ABCD'' (idle\<lparr>now := 2000\<rparr>)"
    by (simp add: fire_def run_callback_def clearTimeout_def idle_def)
  with advanceSimonRound_revalidates [OF n(1), of spec_ext]
    advanceSimonRound_revalidates [OF n(2), of spec_ext] n(1)
  show ?thesis by simp
qed

lemma advanceSimonRound_never_finishes:
  "map_option status (getRoom (advanceSimonRound x code st) code) =
     map_option status (getRoom st code) \<and>
   (outbox (advanceSimonRound x code st) = outbox st \<or>
    (\<exists>r sq. outbox (advanceSimonRound x code st) =
       outbox st @ [(now st, ToRoom code, SimonShowSequence r sq)]))"
  by (simp add: advanceSimonRound_def showSimonSequence_def updateGameState_def map_room_def
      emit_def setTimeout_def getRoom_def Let_def split: option.splits game_state.splits)

lemma race_next_round_revalidates:
  "\<not> (\<exists>room. getRoom st code = Some room \<and> status room = Active) \<Longrightarrow>
   race_next_round_callback code gs st = st"
  by (auto simp: race_next_round_callback_def split: option.splits)

lemma accepting_showing: "accepting showing ''ABCD'' ''alice''"
  unfolding showing_eq started_eq by (simp add: accepting_def getRoom_def actor_defs spec_defs)

lemma not_accepting_idle: "\<not> accepting idle ''ABCD'' ''alice''"
  by (simp add: accepting_def getRoom_def actor_defs)

text \<open>
  C4, as stated: a submission that arrives before "input phase open" has been broadcast
  for the round is never accepted. It fails while the sequence of round 1 is being
  shown: the ticks and the sequence have been broadcast, "input phase open" has not, and
  both a whole-sequence and a per-step submission of Alice are validated and answered
  with a broadcast.
\<close>

theorem early_submission_accepted:
  "outbox showing = ticks @ [(4500, ToRoom ''ABCD'', SimonShowSequence 1 [Red])] \<and>
   \<not> input_phase_open showing ''ABCD'' 1 \<and>
   outbox (simon_submit_sequence spec_ext ''ABCD'' ''alice'' [Red] showing) =
     outbox showing @ [(4500, ToRoom ''ABCD'', SimonResult ''alice'' ''Alice'' True [Red])] \<and>
   outbox (simon_submit_input spec_ext ''ABCD'' ''alice'' Red 0 showing) =
     outbox showing @ [(4500, ToRoom ''ABCD'', SimonInputCorrect ''alice'' 0)]"
  unfolding showing_eq unfolding started_eq
  by (simp add: input_phase_open_def simon_submit_sequence_def simon_submit_input_def
      prim_defs spec_defs actor_defs Let_def)

text \<open>
  C4, amended. The handlers keep no record of the input phase. A whole-sequence or
  per-step submission is discarded, with no validation, no state change and no
  broadcast, exactly when the room is missing or not active, the game is not the
  sequence game, or the player is not playing. In every other case it is validated and
  its outcome is broadcast to the room, and what the engine has or has not emitted
  before plays no part in that.
\<close>

theorem simon_submission_guard:
  "(\<not> accepting st code pid \<longrightarrow>
      simon_submit_sequence x code pid sq st = st \<and> simon_submit_input x code pid c i st = st) \<and>
   (accepting st code pid \<longrightarrow>
      (\<exists>room gs.
         getRoom st code = Some room \<and> gameState room = Some (Simon gs) \<and>
         outbox (simon_submit_sequence x code pid sq st) =
           outbox st @ [(now st, ToRoom code,
              SimonResult pid (name_or (find_player pid (players room)) ''Unknown'')
                (validateSequence x gs sq) (s_sequence gs))] \<and>
         (\<exists>rest. outbox (simon_submit_input x code pid c i st) =
           outbox st @
             (now st, ToRoom code,
              if validateInput x gs pid c i then SimonInputCorrect pid i
              else SimonPlayerEliminated pid
                     (name_or (find_player pid (players room)) ''Unknown'') ''wrong_color'') #
             rest))) \<and>
   accepting (st\<lparr>outbox := ob\<rparr>) code pid = accepting st code pid"
proof (intro conjI impI)
  assume "\<not> accepting st code pid"
  then show "simon_submit_sequence x code pid sq st = st"
    and "simon_submit_input x code pid c i st = st"
    by (simp_all add: not_accepting_sequence not_accepting_input)
next
  assume "accepting st code pid"
  then obtain room gs ps where g: "getRoom st code = Some room" "status room = Active"
    "gameState room = Some (Simon gs)" "map_of (playerStates gs) pid = Some ps"
    "ps_status ps = Playing"
    by (rule acceptingE)
  have a: "outbox (simon_submit_sequence x code pid sq st) =
           outbox st @ [(now st, ToRoom code,
              SimonResult pid (name_or (find_player pid (players room)) ''Unknown'')
                (validateSequence x gs sq) (s_sequence gs))]"
    by (simp add: submit_sequence_accepted [OF g])
  have b: "\<exists>rest. outbox (simon_submit_input x code pid c i st) =
           outbox st @
             (now st, ToRoom code,
              if validateInput x gs pid c i then SimonInputCorrect pid i
              else SimonPlayerEliminated pid
                     (name_or (find_player pid (players room)) ''Unknown'') ''wrong_color'') #
             rest"
  proof (cases "validateInput x gs pid c i")
    case True
    with submit_input_right [OF g True] show ?thesis by simp
  next
    case False
    with submit_input_wrong [OF g False] show ?thesis by simp
  qed
  from g a b show "\<exists>room gs.
         getRoom st code = Some room \<and> gameState room = Some (Simon gs) \<and>
         outbox (simon_submit_sequence x code pid sq st) =
           outbox st @ [(now st, ToRoom code,
              SimonResult pid (name_or (find_player pid (players room)) ''Unknown'')
                (validateSequence x gs sq) (s_sequence gs))] \<and>
         (\<exists>rest. outbox (simon_submit_input x code pid c i st) =
           outbox st @
             (now st, ToRoom code,
              if validateInput x gs pid c i then SimonInputCorrect pid i
              else SimonPlayerEliminated pid
                     (name_or (find_player pid (players room)) ''Unknown'') ''wrong_color'') #
             rest)"
    by blast
next
  show "accepting (st\<lparr>outbox := ob\<rparr>) code pid = accepting st code pid"
    by (simp add: accepting_def getRoom_def)
qed

theorem simon_submission_guard_witness:
  "\<not> accepting idle ''ABCD'' ''alice'' \<and>
   simon_submit_sequence spec_ext ''ABCD'' ''alice'' [Red] idle = idle \<and>
   simon_submit_input spec_ext ''ABCD'' ''alice'' Red 0 idle = idle \<and>
   accepting showing ''ABCD'' ''alice'' \<and> \<not> input_phase_open showing ''ABCD'' 1 \<and>
   (\<exists>room gs. getRoom showing ''ABCD'' = Some room \<and> gameState room = Some (Simon gs) \<and>
      outbox (simon_submit_sequence spec_ext ''ABCD'' ''alice'' [Red] showing) =
        outbox showing @ [(now showing, ToRoom ''ABCD'',
           SimonResult ''alice'' (name_or (find_player ''alice'' (players room)) ''Unknown'')
             (validateSequence spec_ext gs [Red]) (s_sequence gs))])"
proof -
  have n: "\<not> input_phase_open showing ''ABCD'' 1"
    unfolding showing_eq started_eq by (simp add: input_phase_open_def ticks_def)
  from simon_submission_guard [of idle "''ABCD''" "''alice''" spec_ext "[Red]" Red 0 "[]"]
    not_accepting_idle
  have a: "simon_submit_sequence spec_ext ''ABCD'' ''alice'' [Red] idle = idle \<and>
           simon_submit_input spec_ext ''ABCD'' ''alice'' Red 0 idle = idle"
    by blast
  from simon_submission_guard [of showing "''ABCD''" "''alice''" spec_ext "[Red]" Red 0 "[]"]
    accepting_showing
  have b: "\<exists>room gs. getRoom showing ''ABCD'' = Some room \<and> gameState room = Some (Simon gs) \<and>
      outbox (simon_submit_sequence spec_ext ''ABCD'' ''alice'' [Red] showing) =
        outbox showing @ [(now showing, ToRoom ''ABCD'',
           SimonResult ''alice'' (name_or (find_player ''alice'' (players room)) ''Unknown'')
             (validateSequence spec_ext gs [Red]) (s_sequence gs))]"
    by blast
  from a b n not_accepting_idle accepting_showing show ?thesis by blast
qed

text \<open>
  C5, as stated: after every elimination, in both modes, the game ends if and only if
  the should-end predicate holds on the state after the elimination. It fails in
  whole-sequence mode: of three players Alice is eliminated, the predicate is false on
  the state after her elimination, and the game is finished all the same.
\<close>

theorem finish_without_should_end:
  "eliminatePlayer spec_ext round1 ''alice'' (s_round round1) = alice_out \<and>
   \<not> shouldGameEnd spec_ext alice_out \<and>
   timers wrong1 4 = Some \<lparr>due = 9000, cb = EliminateAndFinish ''ABCD'' round1 ''alice'' playing\<rparr> \<and>
   map_option status (getRoom (fire spec_ext 4 wrong1) ''ABCD'') = Some Finished \<and>
   outbox (fire spec_ext 4 wrong1) = outbox wrong1 @
     [(9000, ToRoom ''ABCD'', SimonGameFinished [] ''No winner'' 1)]"
  unfolding lone_finish_def [symmetric] unfolding lone_finish_eq unfolding wrong1_eq
  by (simp add: getRoom_def game_over_def alice_out_def spec_defs actor_defs)

text \<open>
  C5, amended. For an accepted submission. Per-step mode: a rejected step eliminates the
  player, and the game-finished broadcast and the status "finished" follow if and only if
  the should-end predicate holds on the state after the elimination; an accepted step
  neither finishes the game nor changes the status. Whole-sequence mode: the submission
  itself only broadcasts the result and schedules a callback two seconds later; after a
  wrong sequence that callback eliminates the player and then always broadcasts
  game-finished and sets the status "finished", without asking the predicate; after a
  correct sequence the callback advances the round, which never finishes the game.
\<close>

theorem end_of_game_evaluation:
  assumes "getRoom st code = Some room" "status room = Active" "gameState room = Some (Simon gs)"
    "map_of (playerStates gs) pid = Some ps" "ps_status ps = Playing"
  shows "(\<not> validateInput x gs pid c i \<longrightarrow>
           getRoom (simon_submit_input x code pid c i st) code =
             Some (room\<lparr>gameState := Some (Simon (eliminatePlayer x gs pid (s_round gs))),
                        status := (if shouldGameEnd x (eliminatePlayer x gs pid (s_round gs))
                                   then Finished else Active)\<rparr>) \<and>
           outbox (simon_submit_input x code pid c i st) =
             outbox st @
               (now st, ToRoom code,
                SimonPlayerEliminated pid (name_or (find_player pid (players room)) ''Unknown'')
                  ''wrong_color'') #
               (if shouldGameEnd x (eliminatePlayer x gs pid (s_round gs))
                then [(now st, ToRoom code,
                       simon_game_finished x (eliminatePlayer x gs pid (s_round gs)) room)]
                else [])) \<and>
         (validateInput x gs pid c i \<longrightarrow>
           map_option status (getRoom (simon_submit_input x code pid c i st) code) = Some Active \<and>
           outbox (simon_submit_input x code pid c i st) =
             outbox st @ [(now st, ToRoom code, SimonInputCorrect pid i)]) \<and>
         registry (simon_submit_sequence x code pid sq st) = registry st \<and>
         outbox (simon_submit_sequence x code pid sq st) =
           outbox st @ [(now st, ToRoom code,
              SimonResult pid (name_or (find_player pid (players room)) ''Unknown'')
                (validateSequence x gs sq) (s_sequence gs))] \<and>
         timers (simon_submit_sequence x code pid sq st) (next_timer st) =
           Some \<lparr>due = now st + 2000,
                 cb = (if validateSequence x gs sq then AdvanceSimon code
                       else EliminateAndFinish code gs pid room)\<rparr> \<and>
         (\<forall>st0. outbox (eliminate_and_finish_callback x code gs pid room st0) =
                  outbox st0 @ [(now st0, ToRoom code,
                     simon_game_finished x (eliminatePlayer x gs pid (s_round gs)) room)]) \<and>
         (\<forall>st0 r0. getRoom st0 code = Some r0 \<longrightarrow>
                  getRoom (eliminate_and_finish_callback x code gs pid room st0) code =
                    Some (r0\<lparr>gameState := Some (Simon (eliminatePlayer x gs pid (s_round gs))),
                             status := Finished\<rparr>)) \<and>
         (\<forall>st0. map_option status (getRoom (advanceSimonRound x code st0) code) =
                  map_option status (getRoom st0 code) \<and>
                (outbox (advanceSimonRound x code st0) = outbox st0 \<or>
                 (\<exists>r sq. outbox (advanceSimonRound x code st0) =
                    outbox st0 @ [(now st0, ToRoom code, SimonShowSequence r sq)])))"
proof (intro conjI impI allI)
  assume w: "\<not> validateInput x gs pid c i"
  show "getRoom (simon_submit_input x code pid c i st) code =
             Some (room\<lparr>gameState := Some (Simon (eliminatePlayer x gs pid (s_round gs))),
                        status := (if shouldGameEnd x (eliminatePlayer x gs pid (s_round gs))
                                   then Finished else Active)\<rparr>)"
    by (simp add: submit_input_wrong [OF assms w] getRoom_def)
  show "outbox (simon_submit_input x code pid c i st) =
             outbox st @
               (now st, ToRoom code,
                SimonPlayerEliminated pid (name_or (find_player pid (players room)) ''Unknown'')
                  ''wrong_color'') #
               (if shouldGameEnd x (eliminatePlayer x gs pid (s_round gs))
                then [(now st, ToRoom code,
                       simon_game_finished x (eliminatePlayer x gs pid (s_round gs)) room)]
                else [])"
    by (simp add: submit_input_wrong [OF assms w])
next
  assume r: "validateInput x gs pid c i"
  show "map_option status (getRoom (simon_submit_input x code pid c i st) code) = Some Active"
    using submit_input_right [OF assms r] assms(2) by (simp add: getRoom_def)
  show "outbox (simon_submit_input x code pid c i st) =
             outbox st @ [(now st, ToRoom code, SimonInputCorrect pid i)]"
    using submit_input_right [OF assms r] by simp
next
  show "registry (simon_submit_sequence x code pid sq st) = registry st"
    by (simp add: submit_sequence_accepted [OF assms])
  show "outbox (simon_submit_sequence x code pid sq st) =
           outbox st @ [(now st, ToRoom code,
              SimonResult pid (name_or (find_player pid (players room)) ''Unknown'')
                (validateSequence x gs sq) (s_sequence gs))]"
    by (simp add: submit_sequence_accepted [OF assms])
  show "timers (simon_submit_sequence x code pid sq st) (next_timer st) =
           Some \<lparr>due = now st + 2000,
                 cb = (if validateSequence x gs sq then AdvanceSimon code
                       else EliminateAndFinish code gs pid room)\<rparr>"
    by (simp add: submit_sequence_accepted [OF assms])
next
  fix st0
  show "outbox (eliminate_and_finish_callback x code gs pid room st0) =
                  outbox st0 @ [(now st0, ToRoom code,
                     simon_game_finished x (eliminatePlayer x gs pid (s_round gs)) room)]"
    by (rule eliminate_and_finish_always_emits)
next
  fix st0 r0
  assume "getRoom st0 code = Some r0"
  then show "getRoom (eliminate_and_finish_callback x code gs pid room st0) code =
                    Some (r0\<lparr>gameState := Some (Simon (eliminatePlayer x gs pid (s_round gs))),
                             status := Finished\<rparr>)"
    by (rule eliminate_and_finish_room)
next
  fix st0
  show "map_option status (getRoom (advanceSimonRound x code st0) code) =
                  map_option status (getRoom st0 code)"
    and "outbox (advanceSimonRound x code st0) = outbox st0 \<or>
                 (\<exists>r sq. outbox (advanceSimonRound x code st0) =
                    outbox st0 @ [(now st0, ToRoom code, SimonShowSequence r sq)])"
    using advanceSimonRound_never_finishes [of x code st0] by blast+
qed

theorem end_of_game_evaluation_witness:
  "getRoom (elapse 700 input_open) ''ABCD'' = Some playing \<and> status playing = Active \<and>
   gameState playing = Some (Simon round1) \<and>
   map_of (playerStates round1) ''alice'' = Some \<lparr>ps_status = Playing, currentInputIndex = 0\<rparr> \<and>
   \<not> validateInput spec_ext round1 ''alice'' Blue 0 \<and>
   \<not> shouldGameEnd spec_ext (eliminatePlayer spec_ext round1 ''alice'' (s_round round1)) \<and>
   outbox (simon_submit_input spec_ext ''ABCD'' ''alice'' Blue 0 (elapse 700 input_open)) =
     prelude @ [(7000, ToRoom ''ABCD'', SimonPlayerEliminated ''alice'' ''Alice'' ''wrong_color'')] \<and>
   outbox (eliminate_and_finish_callback spec_ext ''ABCD'' round1 ''alice'' playing idle) =
     [(0, ToRoom ''ABCD'', SimonGameFinished [] ''No winner'' 1)]"
proof -
  have g: "getRoom (elapse 700 input_open) ''ABCD'' = Some playing" "status playing = Active"
    "gameState playing = Some (Simon round1)"
    "map_of (playerStates round1) ''alice'' = Some \<lparr>ps_status = Playing, currentInputIndex = 0\<rparr>"
    "ps_status \<lparr>ps_status = Playing, currentInputIndex = 0\<rparr> = Playing"
    unfolding input_open_eq by (simp_all add: getRoom_def elapse_def actor_defs spec_defs)
  have v: "\<not> validateInput spec_ext round1 ''alice'' Blue 0"
    "\<not> shouldGameEnd spec_ext (eliminatePlayer spec_ext round1 ''alice'' (s_round round1))"
    by (simp_all add: actor_defs spec_defs)
  have n: "now (elapse 700 input_open) = 7000" "outbox (elapse 700 input_open) = prelude"
    "name_or (find_player ''alice'' (players playing)) ''Unknown'' = ''Alice''"
    unfolding input_open_eq by (simp_all add: elapse_def name_or_def find_player_def actor_defs)
  have f: "simon_game_finished spec_ext
             (eliminatePlayer spec_ext round1 ''alice'' (s_round round1)) playing =
           SimonGameFinished [] ''No winner'' 1" "now idle = 0" "outbox idle = []"
    by (simp_all add: simon_game_finished_def name_or_def find_player_opt_def actor_defs spec_defs)
  from end_of_game_evaluation [OF g, of spec_ext Blue 0 "[]"] v n f
  have "outbox (simon_submit_input spec_ext ''ABCD'' ''alice'' Blue 0 (elapse 700 input_open)) =
     prelude @ [(7000, ToRoom ''ABCD'', SimonPlayerEliminated ''alice'' ''Alice'' ''wrong_color'')]"
    and "outbox (eliminate_and_finish_callback spec_ext ''ABCD'' round1 ''alice'' playing idle) =
     [(0, ToRoom ''ABCD'', SimonGameFinished [] ''No winner'' 1)]"
    by simp_all
  with g v show ?thesis by simp
qed

text \<open>
  C6, as stated: a player whose progress pointer has reached the sequence length is not
  eliminated by a further submission in the same round. It fails in round 1, whose
  sequence has one colour: Alice enters the colour, her pointer is 1 and she is still
  playing while the others have not finished; her next step is rejected by the validator,
  she is eliminated and the elimination is broadcast.
\<close>

theorem completed_player_eliminated:
  "map_option gameState (getRoom done1 ''ABCD'') = Some (Some (Simon alice_done)) \<and>
   map_of (playerStates alice_done) ''alice'' = Some \<lparr>ps_status = Playing, currentInputIndex = 1\<rparr> \<and>
   length (s_sequence alice_done) = 1 \<and>
   map_option gameState (getRoom again ''ABCD'') =
     Some (Some (Simon (spec_eliminatePlayer alice_done ''alice'' 1))) \<and>
   map_of (playerStates (spec_eliminatePlayer alice_done ''alice'' 1)) ''alice'' =
     Some \<lparr>ps_status = Eliminated, currentInputIndex = 1\<rparr> \<and>
   outbox again = outbox done1 @
     [(7300, ToRoom ''ABCD'', SimonPlayerEliminated ''alice'' ''Alice'' ''wrong_color'')]"
  unfolding again_eq unfolding done1_eq
  by (simp add: getRoom_def alice_done_def spec_defs actor_defs)

text \<open>
  C6, amended. The per-step handler does not check whether the player has completed the
  round. A further step of a player whose pointer has reached the sequence length and
  who is still playing goes to the validator like any other step: if the validator
  rejects it, the state with the player eliminated is stored and the elimination is
  broadcast; if it accepts it, the state with the pointer advanced is stored and the step
  is acknowledged.
\<close>

theorem completed_player_still_validated:
  assumes "getRoom st code = Some room" "status room = Active" "gameState room = Some (Simon gs)"
    "map_of (playerStates gs) pid = Some ps" "ps_status ps = Playing"
    "int (length (s_sequence gs)) \<le> currentInputIndex ps"
  shows "(\<not> validateInput x gs pid c i \<longrightarrow>
           map_option gameState (getRoom (simon_submit_input x code pid c i st) code) =
             Some (Some (Simon (eliminatePlayer x gs pid (s_round gs)))) \<and>
           (\<exists>rest. outbox (simon_submit_input x code pid c i st) =
              outbox st @
                (now st, ToRoom code,
                 SimonPlayerEliminated pid (name_or (find_player pid (players room)) ''Unknown'')
                   ''wrong_color'') # rest)) \<and>
         (validateInput x gs pid c i \<longrightarrow>
           map_option gameState (getRoom (simon_submit_input x code pid c i st) code) =
             Some (Some (Simon (updatePlayerProgress x gs pid))) \<and>
           outbox (simon_submit_input x code pid c i st) =
             outbox st @ [(now st, ToRoom code, SimonInputCorrect pid i)])"
proof (intro conjI impI)
  assume w: "\<not> validateInput x gs pid c i"
  show "map_option gameState (getRoom (simon_submit_input x code pid c i st) code) =
             Some (Some (Simon (eliminatePlayer x gs pid (s_round gs))))"
    by (simp add: submit_input_wrong [OF assms(1-5) w] getRoom_def)
  show "\<exists>rest. outbox (simon_submit_input x code pid c i st) =
              outbox st @
                (now st, ToRoom code,
                 SimonPlayerEliminated pid (name_or (find_player pid (players room)) ''Unknown'')
                   ''wrong_color'') # rest"
    by (simp add: submit_input_wrong [OF assms(1-5) w])
next
  assume r: "validateInput x gs pid c i"
  show "map_option gameState (getRoom (simon_submit_input x code pid c i st) code) =
             Some (Some (Simon (updatePlayerProgress x gs pid)))"
    using submit_input_right [OF assms(1-5) r] by (simp add: getRoom_def)
  show "outbox (simon_submit_input x code pid c i st) =
             outbox st @ [(now st, ToRoom code, SimonInputCorrect pid i)]"
    using submit_input_right [OF assms(1-5) r] by simp
qed

theorem completed_player_still_validated_witness:
  "getRoom (elapse 300 done1) ''ABCD'' = Some (playing\<lparr>gameState := Some (Simon alice_done)\<rparr>) \<and>
   map_of (playerStates alice_done) ''alice'' = Some \<lparr>ps_status = Playing, currentInputIndex = 1\<rparr> \<and>
   int (length (s_sequence alice_done)) \<le> 1 \<and>
   \<not> validateInput spec_ext alice_done ''alice'' Blue 1 \<and>
   map_option gameState
     (getRoom (simon_submit_input spec_ext ''ABCD'' ''alice'' Blue 1 (elapse 300 done1)) ''ABCD'') =
     Some (Some (Simon (eliminatePlayer spec_ext alice_done ''alice'' (s_round alice_done))))"
proof -
  have g: "getRoom (elapse 300 done1) ''ABCD'' = Some (playing\<lparr>gameState := Some (Simon alice_done)\<rparr>)"
    "status (playing\<lparr>gameState := Some (Simon alice_done)\<rparr>) = Active"
    "gameState (playing\<lparr>gameState := Some (Simon alice_done)\<rparr>) = Some (Simon alice_done)"
    "map_of (playerStates alice_done) ''alice'' = Some \<lparr>ps_status = Playing, currentInputIndex = 1\<rparr>"
    "ps_status \<lparr>ps_status = Playing, currentInputIndex = 1\<rparr> = Playing"
    "int (length (s_sequence alice_done)) \<le> currentInputIndex \<lparr>ps_status = Playing, currentInputIndex = 1\<rparr>"
    unfolding done1_eq
    by (simp_all add: getRoom_def elapse_def alice_done_def actor_defs spec_defs)
  have v: "\<not> validateInput spec_ext alice_done ''alice'' Blue 1"
    by (simp add: alice_done_def actor_defs spec_defs)
  from completed_player_still_validated [OF g, of spec_ext Blue 1] v g show ?thesis
    by simp
qed

text \<open>
  C7. The specification states that every timer callback looks the room up again and does
  nothing when the room is gone, its status has changed or the game is another one. The
  callback scheduled by a wrong whole-sequence submission works on the game state and the
  room object it captured: by \<open>eliminate_and_finish_always_emits\<close> it
  broadcasts in every state. In the run where Alice submits two wrong sequences half a
  second apart, the first callback finishes the game; the second is still pending, fires
  when the status is already "finished", and broadcasts game-finished again.
\<close>

theorem stale_elimination_callback_acts:
  "map_option status (getRoom over1 ''ABCD'') = Some Finished \<and>
   timers over1 5 = Some \<lparr>due = 9500, cb = EliminateAndFinish ''ABCD'' round1 ''alice'' playing\<rparr> \<and>
   fire spec_ext 5 over1 \<noteq> over1 \<and>
   outbox (fire spec_ext 5 over1) = outbox over1 @
     [(9500, ToRoom ''ABCD'', SimonGameFinished [] ''No winner'' 1)]"
proof -
  have "outbox over2 \<noteq> outbox over1"
    unfolding over2_eq by simp
  then have "over2 \<noteq> over1" by auto
  then show ?thesis
    unfolding over2_def [symmetric] unfolding over2_eq unfolding over1_eq
    by (simp add: getRoom_def game_over_def)
qed

end
